theory Spec2Isabelle
  imports Main "HOL-Library.AList"
begin

section \<open>Python values, exceptions and the outside world\<close>

text \<open>
  The services of \<^verbatim>\<open>src/services\<close> talk to three collaborators: the Azure agents
  client, the chat-completion client and the local file system. Each operation of a
  collaborator is a function on an abstract state \<open>'s\<close> of the outside world that either
  raises (\<open>Inl\<close>) or returns (\<open>Inr\<close>). Nothing is assumed about these functions, so a
  statement proved for every \<open>self\<close> holds for every behaviour of the collaborators.
\<close>

datatype py_exception = PyException (exc_class: string) (exc_str: string)

datatype level = DEBUG | INFO | WARNING | ERROR

record run =
  status :: string
  last_error :: string

text \<open>What \<^verbatim>\<open>get_last_message_text_by_role\<close> hands back: nothing, a message whose
  \<^verbatim>\<open>text\<close> is falsy, or a message with a text value.\<close>

datatype last_message = NoMessage | MessageWithoutText | MessageText string

datatype message_role = USER | AGENT

record annotation =
  annotation_text :: string
  file_path_file_id :: string

record thread_message =
  role :: message_role
  file_path_annotations :: "annotation list"

text \<open>A chat request (the temperature in hundredths) and its response, which is the
  list of the contents of the choices.\<close>

record chat_request =
  request_model :: string
  system_content :: string
  user_content :: string
  temperature_percent :: nat
  max_completion_tokens :: nat

text \<open>Every call to a collaborator, with the arguments the code passes, and every
  kind of value a collaborator returns.\<close>

datatype call =
    Files_upload_and_poll string "string option"
  | Files_delete string
  | Files_save string string "string option"
  | Create_agent string string string "string list"
  | Delete_agent string
  | Threads_create
  | Threads_delete string
  | Messages_create "string option" string string
  | Runs_create_and_process "string option" "string option"
  | Messages_get_last_message_text_by_role "string option"
  | Messages_list "string option"
  | Chat_completions_create chat_request
  | Os_path_exists string
  | Shutil_copy2 string string
  | Os_remove string
  | Os_rename string string
  | Os_listdir string
  | Open_read string

datatype py_value =
    VNone
  | VStr string
  | VBool bool
  | VStrs "string list"
  | VRun run
  | VLast last_message
  | VMessages "thread_message list"
  | VChoices "string option list"

text \<open>The observable history: each call with what it raised or returned, and each log
  record.\<close>

datatype event = Call call "py_exception + py_value" | Log level string

text \<open>
  \<open>self\<close>: the collaborators and the configuration a service object holds.
  \<open>open_read\<close> stands for opening a text file, reading it and closing it.
  \<open>config_model_deployments\<close> is \<open>None\<close> when the configuration object has no attribute
  \<^verbatim>\<open>model_deployments\<close>. The prompt texts of \<^verbatim>\<open>prompts.py\<close> are fields as well; the two
  templates are given by what \<^verbatim>\<open>.format\<close> makes of them (both templates name exactly
  the placeholders that are passed, so \<^verbatim>\<open>.format\<close> does not raise).
\<close>

record 's env =
  agents_client_present :: bool
  files_upload_and_poll :: "string \<Rightarrow> string option \<Rightarrow> 's \<Rightarrow> (py_exception + string) \<times> 's"
  files_delete :: "string \<Rightarrow> 's \<Rightarrow> (py_exception + unit) \<times> 's"
  files_save :: "string \<Rightarrow> string \<Rightarrow> string option \<Rightarrow> 's \<Rightarrow> (py_exception + unit) \<times> 's"
  create_agent :: "string \<Rightarrow> string \<Rightarrow> string \<Rightarrow> string list \<Rightarrow> 's \<Rightarrow> (py_exception + string) \<times> 's"
  delete_agent :: "string \<Rightarrow> 's \<Rightarrow> (py_exception + unit) \<times> 's"
  threads_create :: "'s \<Rightarrow> (py_exception + string) \<times> 's"
  threads_delete :: "string \<Rightarrow> 's \<Rightarrow> (py_exception + unit) \<times> 's"
  messages_create :: "string option \<Rightarrow> string \<Rightarrow> string \<Rightarrow> 's \<Rightarrow> (py_exception + unit) \<times> 's"
  runs_create_and_process :: "string option \<Rightarrow> string option \<Rightarrow> 's \<Rightarrow> (py_exception + run) \<times> 's"
  messages_get_last_message_text_by_role :: "string option \<Rightarrow> 's \<Rightarrow> (py_exception + last_message) \<times> 's"
  messages_list :: "string option \<Rightarrow> 's \<Rightarrow> (py_exception + thread_message list) \<times> 's"
  chat_completions_create :: "chat_request \<Rightarrow> 's \<Rightarrow> (py_exception + string option list) \<times> 's"
  os_path_exists :: "string \<Rightarrow> 's \<Rightarrow> (py_exception + bool) \<times> 's"
  shutil_copy2 :: "string \<Rightarrow> string \<Rightarrow> 's \<Rightarrow> (py_exception + unit) \<times> 's"
  os_remove :: "string \<Rightarrow> 's \<Rightarrow> (py_exception + unit) \<times> 's"
  os_rename :: "string \<Rightarrow> string \<Rightarrow> 's \<Rightarrow> (py_exception + unit) \<times> 's"
  os_listdir :: "string \<Rightarrow> 's \<Rightarrow> (py_exception + string list) \<times> 's"
  open_read :: "string \<Rightarrow> 's \<Rightarrow> (py_exception + string) \<times> 's"
  config_model_deployments :: "string list option"
  best_output_selector_model :: string
  azure_openai_deployment_name :: string
  self_model_name :: string
  AGENT_DEFAULT_INSTRUCTIONS :: string
  AGENT_CONTINUATION_PROMPT :: string
  REORDER_TASK_PROMPT :: string
  CSV_OUTPUT_SELECTION_SYSTEM_PROMPT :: string
  CSV_OUTPUT_SELECTION_USER_PROMPT_TEMPLATE_format :: "string \<Rightarrow> string \<Rightarrow> string"
  REORDER_SELECTION_PROMPT_TEMPLATE_format :: "string \<Rightarrow> string \<Rightarrow> string"

text \<open>The state a piece of code runs in: the outside world and the history so far. A task
  of one model carries its context object as well (\<open>ctx\<close>); the context is part of the
  state because the code mutates it, and what it holds when an exception is raised is what
  the \<^verbatim>\<open>finally\<close> block releases.\<close>

record 's world =
  ext :: 's
  trace :: "event list"

record ('s, 'c) task = "'s world" +
  ctx :: 'c

type_synonym ('w, 'a) action = "'w \<Rightarrow> (py_exception + 'a) \<times> 'w"

definition perform ::
  "call \<Rightarrow> ('a \<Rightarrow> py_value) \<Rightarrow> ('s \<Rightarrow> (py_exception + 'a) \<times> 's) \<Rightarrow> (('s, 'm) world_scheme, 'a) action" where
  "perform c describe f w =
     (case f (ext w) of
        (r, s) \<Rightarrow> (r, w\<lparr>ext := s, trace := trace w @ [Call c (map_sum id describe r)]\<rparr>))"

definition logger :: "level \<Rightarrow> string \<Rightarrow> (('s, 'm) world_scheme, unit) action" where
  "logger lvl msg w = (Inr (), w\<lparr>trace := trace w @ [Log lvl msg]\<rparr>)"

definition ret :: "'a \<Rightarrow> ('w, 'a) action" where
  "ret x w = (Inr x, w)"

definition raise :: "py_exception \<Rightarrow> ('w, 'a) action" where
  "raise e w = (Inl e, w)"

definition and_then :: "('w, 'a) action \<Rightarrow> ('a \<Rightarrow> ('w, 'b) action) \<Rightarrow> ('w, 'b) action" where
  "and_then m f w = (case m w of (Inl e, w1) \<Rightarrow> (Inl e, w1) | (Inr x, w1) \<Rightarrow> f x w1)"

text \<open>\<^verbatim>\<open>try: body except Exception as e: handler\<close>, and
  \<^verbatim>\<open>try: body finally: fin\<close> (an exception of \<open>fin\<close> replaces the outcome of the body).\<close>

definition try_except :: "('w, 'a) action \<Rightarrow> (py_exception \<Rightarrow> ('w, 'a) action) \<Rightarrow> ('w, 'a) action" where
  "try_except body handler w =
     (case body w of (Inl e, w1) \<Rightarrow> handler e w1 | (Inr x, w1) \<Rightarrow> (Inr x, w1))"

definition try_finally :: "('w, 'a) action \<Rightarrow> ('w, unit) action \<Rightarrow> ('w, 'a) action" where
  "try_finally body fin w =
     (case body w of
        (r, w1) \<Rightarrow> (case fin w1 of (Inl e, w2) \<Rightarrow> (Inl e, w2) | (Inr _, w2) \<Rightarrow> (r, w2)))"

definition get_ctx :: "(('s, 'c) task, 'c) action" where
  "get_ctx w = (Inr (ctx w), w)"

definition modify_ctx :: "('c \<Rightarrow> 'c) \<Rightarrow> (('s, 'c) task, unit) action" where
  "modify_ctx f w = (Inr (), w\<lparr>ctx := f (ctx w)\<rparr>)"

text \<open>A function that creates a context object of its own and runs on it.\<close>

definition with_ctx :: "'c \<Rightarrow> (('s, 'c) task, 'a) action \<Rightarrow> ('s world, 'a) action" where
  "with_ctx c m w =
     (case m \<lparr>ext = ext w, trace = trace w, ctx = c\<rparr> of
        (r, t) \<Rightarrow> (r, \<lparr>ext = ext t, trace = trace t\<rparr>))"

subsection \<open>The calls\<close>

definition call_files_upload_and_poll where
  "call_files_upload_and_poll self path filename =
     perform (Files_upload_and_poll path filename) VStr (files_upload_and_poll self path filename)"

definition call_files_delete where
  "call_files_delete self fid = perform (Files_delete fid) (\<lambda>_. VNone) (files_delete self fid)"

definition call_files_save where
  "call_files_save self fid file_name target_dir =
     perform (Files_save fid file_name target_dir) (\<lambda>_. VNone) (files_save self fid file_name target_dir)"

definition call_create_agent where
  "call_create_agent self model name instructions fids =
     perform (Create_agent model name instructions fids) VStr (create_agent self model name instructions fids)"

definition call_delete_agent where
  "call_delete_agent self aid = perform (Delete_agent aid) (\<lambda>_. VNone) (delete_agent self aid)"

definition call_threads_create where
  "call_threads_create self = perform Threads_create VStr (threads_create self)"

definition call_threads_delete where
  "call_threads_delete self tid = perform (Threads_delete tid) (\<lambda>_. VNone) (threads_delete self tid)"

definition call_messages_create where
  "call_messages_create self tid role_name content =
     perform (Messages_create tid role_name content) (\<lambda>_. VNone) (messages_create self tid role_name content)"

definition call_runs_create_and_process where
  "call_runs_create_and_process self tid aid =
     perform (Runs_create_and_process tid aid) VRun (runs_create_and_process self tid aid)"

definition call_messages_get_last_message_text_by_role where
  "call_messages_get_last_message_text_by_role self tid =
     perform (Messages_get_last_message_text_by_role tid) VLast
       (messages_get_last_message_text_by_role self tid)"

definition call_messages_list where
  "call_messages_list self tid = perform (Messages_list tid) VMessages (messages_list self tid)"

definition call_chat_completions_create where
  "call_chat_completions_create self req =
     perform (Chat_completions_create req) VChoices (chat_completions_create self req)"

definition call_os_path_exists where
  "call_os_path_exists self path = perform (Os_path_exists path) VBool (os_path_exists self path)"

definition call_shutil_copy2 where
  "call_shutil_copy2 self src dst = perform (Shutil_copy2 src dst) (\<lambda>_. VNone) (shutil_copy2 self src dst)"

definition call_os_remove where
  "call_os_remove self path = perform (Os_remove path) (\<lambda>_. VNone) (os_remove self path)"

definition call_os_rename where
  "call_os_rename self src dst = perform (Os_rename src dst) (\<lambda>_. VNone) (os_rename self src dst)"

definition call_os_listdir where
  "call_os_listdir self path = perform (Os_listdir path) VStrs (os_listdir self path)"

definition call_open_read where
  "call_open_read self path = perform (Open_read path) VStr (open_read self path)"

subsection \<open>Strings\<close>

definition startswith :: "string \<Rightarrow> string \<Rightarrow> bool" where
  "startswith s p = (take (length p) s = p)"

definition endswith :: "string \<Rightarrow> string \<Rightarrow> bool" where
  "endswith s p = (length p \<le> length s \<and> drop (length s - length p) s = p)"

text \<open>\<^verbatim>\<open>sub in s\<close>\<close>

fun py_in :: "string \<Rightarrow> string \<Rightarrow> bool" where
  "py_in sub [] = (sub = [])"
| "py_in sub (c # cs) = (startswith (c # cs) sub \<or> py_in sub cs)"

text \<open>\<^verbatim>\<open>s.replace(old, new)\<close>: the occurrences of \<open>old\<close> from the left, not overlapping.
  The counter is the number of characters of a match still to be dropped.\<close>

fun replace_from :: "string \<Rightarrow> string \<Rightarrow> nat \<Rightarrow> string \<Rightarrow> string" where
  "replace_from old new n [] = []"
| "replace_from old new (Suc n) (c # cs) = replace_from old new n cs"
| "replace_from old new 0 (c # cs) =
     (if startswith (c # cs) old then new @ replace_from old new (length old - 1) cs
      else c # replace_from old new 0 cs)"

definition py_replace :: "string \<Rightarrow> string \<Rightarrow> string \<Rightarrow> string" where
  "py_replace old new s =
     (if old = [] then new @ concat (map (\<lambda>c. c # new) s) else replace_from old new 0 s)"

text \<open>\<^verbatim>\<open>s.split('/')[-1]\<close>, which is also \<^verbatim>\<open>os.path.basename(s)\<close>.\<close>

definition last_segment :: "string \<Rightarrow> string" where
  "last_segment s = rev (takeWhile (\<lambda>c. c \<noteq> CHR ''/'') (rev s))"

definition is_lower :: "char \<Rightarrow> bool" where
  "is_lower c = (97 \<le> (of_char c :: nat) \<and> (of_char c :: nat) \<le> 122)"

definition is_upper :: "char \<Rightarrow> bool" where
  "is_upper c = (65 \<le> (of_char c :: nat) \<and> (of_char c :: nat) \<le> 90)"

definition to_upper :: "char \<Rightarrow> char" where
  "to_upper c = (if is_lower c then char_of (of_char c - 32 :: nat) else c)"

definition to_lower :: "char \<Rightarrow> char" where
  "to_lower c = (if is_upper c then char_of (of_char c + 32 :: nat) else c)"

definition py_lower :: "string \<Rightarrow> string" where
  "py_lower s = map to_lower s"

text \<open>\<^verbatim>\<open>s.title()\<close> on ASCII text; the flag says whether the previous character is a
  letter.\<close>

fun title_from :: "bool \<Rightarrow> string \<Rightarrow> string" where
  "title_from prev [] = []"
| "title_from prev (c # cs) =
     (if is_lower c then (if prev then c else to_upper c) # title_from True cs
      else if is_upper c then (if prev then to_lower c else c) # title_from True cs
      else c # title_from False cs)"

definition py_title :: "string \<Rightarrow> string" where
  "py_title s = title_from False s"

text \<open>\<^verbatim>\<open>str.isspace\<close> on the code points below 256, and \<^verbatim>\<open>s.strip()\<close>.\<close>

definition is_space :: "char \<Rightarrow> bool" where
  "is_space c = (of_char c \<in> {9, 10, 11, 12, 13, 28, 29, 30, 31, 32, 133, 160 :: nat})"

definition py_strip :: "string \<Rightarrow> string" where
  "py_strip s = rev (dropWhile is_space (rev (dropWhile is_space s)))"

text \<open>\<^verbatim>\<open>sep.join(parts)\<close>\<close>

fun py_join :: "string \<Rightarrow> string list \<Rightarrow> string" where
  "py_join sep [] = []"
| "py_join sep [x] = x"
| "py_join sep (x # y # ys) = x @ sep @ py_join sep (y # ys)"

text \<open>\<^verbatim>\<open>str(n)\<close> of an integer.\<close>

definition digit_char :: "nat \<Rightarrow> char" where
  "digit_char n = ''0123456789'' ! (n mod 10)"

function str_nat :: "nat \<Rightarrow> string" where
  "str_nat n = (if n < 10 then [digit_char n] else str_nat (n div 10) @ [digit_char n])"
  by pat_completeness auto
termination
  by (relation "measure (\<lambda>n. n)") auto

definition str_int :: "int \<Rightarrow> string" where
  "str_int i = (if i < 0 then CHR ''-'' # str_nat (nat (- i)) else str_nat (nat i))"

text \<open>\<^verbatim>\<open>int(s)\<close> of a string: surrounding white space, a sign, decimal digits, single
  underscores between digits; \<open>None\<close> stands for \<^verbatim>\<open>ValueError\<close>.\<close>

definition digit_of :: "char \<Rightarrow> int option" where
  "digit_of c =
     (if 48 \<le> (of_char c :: nat) \<and> (of_char c :: nat) \<le> 57 then Some (int (of_char c) - 48) else None)"

fun py_digits :: "int \<Rightarrow> string \<Rightarrow> int option" where
  "py_digits acc [] = Some acc"
| "py_digits acc [c] = (case digit_of c of Some d \<Rightarrow> Some (acc * 10 + d) | None \<Rightarrow> None)"
| "py_digits acc (c # d # ds) =
     (if c = CHR ''_'' then
        (case digit_of d of Some n \<Rightarrow> py_digits (acc * 10 + n) ds | None \<Rightarrow> None)
      else (case digit_of c of Some n \<Rightarrow> py_digits (acc * 10 + n) (d # ds) | None \<Rightarrow> None))"

definition py_unsigned :: "string \<Rightarrow> int option" where
  "py_unsigned s =
     (case s of [] \<Rightarrow> None
      | c # cs \<Rightarrow> (case digit_of c of Some n \<Rightarrow> py_digits n cs | None \<Rightarrow> None))"

definition py_int :: "string \<Rightarrow> int option" where
  "py_int s =
     (case py_strip s of [] \<Rightarrow> None
      | c # cs \<Rightarrow>
          if c = CHR ''-'' then map_option uminus (py_unsigned cs)
          else if c = CHR ''+'' then py_unsigned cs
          else py_unsigned (c # cs))"

text \<open>\<^verbatim>\<open>os.path.dirname\<close> and \<^verbatim>\<open>os.path.join\<close> of two parts (POSIX).\<close>

definition os_path_dirname :: "string \<Rightarrow> string" where
  "os_path_dirname p =
     (let head = take (length p - length (last_segment p)) p
      in if head \<noteq> [] \<and> head \<noteq> replicate (length head) CHR ''/''
         then rev (dropWhile (\<lambda>c. c = CHR ''/'') (rev head)) else head)"

definition os_path_join :: "string \<Rightarrow> string \<Rightarrow> string" where
  "os_path_join a b =
     (if startswith b ''/'' then b
      else if a = [] \<or> endswith a ''/'' then a @ b
      else a @ ''/'' @ b)"

definition for_model :: "string \<Rightarrow> string" where
  "for_model mname = (if mname \<noteq> [] then '' for model '' @ mname else [])"

section \<open>base_agent_service.py\<close>

definition cleanup_thread :: "'s env \<Rightarrow> string \<Rightarrow> string \<Rightarrow> (('s, 'm) world_scheme, unit) action" where
  "cleanup_thread self tid mname =
     try_except
       (and_then (call_threads_delete self tid)
          (\<lambda>_. logger DEBUG (''Deleted thread '' @ tid @ for_model mname)))
       (\<lambda>e. logger ERROR (''Error deleting thread '' @ tid @ '': '' @ exc_str e))"

fun cleanup_files :: "'s env \<Rightarrow> string list \<Rightarrow> string \<Rightarrow> (('s, 'm) world_scheme, unit) action" where
  "cleanup_files self [] mname = ret ()"
| "cleanup_files self (fid # rest) mname =
     and_then
       (try_except
          (and_then (call_files_delete self fid)
             (\<lambda>_. logger DEBUG (''Deleted agent file '' @ fid @ for_model mname)))
          (\<lambda>e. logger ERROR (''Error deleting file '' @ fid @ '': '' @ exc_str e)))
       (\<lambda>_. cleanup_files self rest mname)"

definition cleanup_agent :: "'s env \<Rightarrow> string \<Rightarrow> string \<Rightarrow> (('s, 'm) world_scheme, unit) action" where
  "cleanup_agent self aid mname =
     try_except
       (and_then (call_delete_agent self aid)
          (\<lambda>_. logger DEBUG (''Deleted agent '' @ aid @ for_model mname)))
       (\<lambda>e. logger ERROR (''Error deleting agent '' @ aid @ '': '' @ exc_str e))"

definition base_cleanup_agent_resources ::
  "'s env \<Rightarrow> string option \<Rightarrow> string option \<Rightarrow> string list option \<Rightarrow> string \<Rightarrow> (('s, 'm) world_scheme, unit) action" where
  "base_cleanup_agent_resources self tid aid fids mname =
     (if \<not> agents_client_present self then ret ()
      else
        and_then (case tid of Some t \<Rightarrow> if t \<noteq> [] then cleanup_thread self t mname else ret ()
                  | None \<Rightarrow> ret ())
        (\<lambda>_. and_then (case fids of Some fs \<Rightarrow> if fs \<noteq> [] then cleanup_files self fs mname else ret ()
                        | None \<Rightarrow> ret ())
        (\<lambda>_. case aid of Some a \<Rightarrow> if a \<noteq> [] then cleanup_agent self a mname else ret ()
              | None \<Rightarrow> ret ())))"


section \<open>utils/file_utils.py\<close>

definition newline :: string where
  "newline = [CHR 0x0A]"

text \<open>The lines \<^verbatim>\<open>readline\<close> delivers one after the other: each ends with its line break,
  the last one may not.\<close>

fun py_readlines_from :: "string \<Rightarrow> string \<Rightarrow> string list" where
  "py_readlines_from cur [] = (if cur = [] then [] else [cur])"
| "py_readlines_from cur (c # cs) =
     (if c = CHR 0x0A then (cur @ [c]) # py_readlines_from [] cs
      else py_readlines_from (cur @ [c]) cs)"

definition read_file_lines :: "'s env \<Rightarrow> string \<Rightarrow> nat \<Rightarrow> (('s, 'm) world_scheme, string list) action" where
  "read_file_lines self file_path num_lines =
     try_except
       (and_then (call_open_read self file_path)
          (\<lambda>content. ret (map py_strip (take num_lines (py_readlines_from [] content)))))
       (\<lambda>e. and_then (logger ERROR (''Error reading file '' @ file_path @ '': '' @ exc_str e))
              (\<lambda>_. ret []))"

fun copy_files_to_temp_from ::
  "'s env \<Rightarrow> (string \<times> string) list \<Rightarrow> string list \<Rightarrow> (('s, 'm) world_scheme, string list) action" where
  "copy_files_to_temp_from self [] temp_files = ret temp_files"
| "copy_files_to_temp_from self ((source, temp) # rest) temp_files =
     and_then (call_os_path_exists self source)
       (\<lambda>found.
          if \<not> found then raise (PyException ''FileNotFoundError'' (''Source file not found: '' @ source))
          else and_then (call_shutil_copy2 self source temp)
                 (\<lambda>_. and_then (logger DEBUG (''Copied '' @ source @ '' to '' @ temp))
                 (\<lambda>_. copy_files_to_temp_from self rest (temp_files @ [temp]))))"

definition copy_files_to_temp ::
  "'s env \<Rightarrow> (string \<times> string) list \<Rightarrow> (('s, 'm) world_scheme, string list) action" where
  "copy_files_to_temp self files = copy_files_to_temp_from self files []"

fun cleanup_temp_files :: "'s env \<Rightarrow> string list \<Rightarrow> (('s, 'm) world_scheme, unit) action" where
  "cleanup_temp_files self [] = ret ()"
| "cleanup_temp_files self (file_path # rest) =
     and_then
       (try_except
          (and_then (call_os_path_exists self file_path)
             (\<lambda>found.
                if found then
                  and_then (call_os_remove self file_path)
                    (\<lambda>_. logger DEBUG (''Deleted temporary file '' @ file_path))
                else ret ()))
          (\<lambda>e. logger ERROR (''Error deleting temporary file '' @ file_path @ '': '' @ exc_str e)))
       (\<lambda>_. cleanup_temp_files self rest)"

section \<open>services/openai_service.py\<close>

definition SELECTION_MAX_TOKENS :: nat where
  "SELECTION_MAX_TOKENS = 10"

text \<open>\<^verbatim>\<open>list(model_outputs.values())[0]\<close> and \<^verbatim>\<open>list(model_outputs.keys())[0]\<close>; a
  dictionary is the list of its items in insertion order.\<close>

definition values_first :: "(string \<times> string) list \<Rightarrow> ('w, string) action" where
  "values_first model_outputs =
     (case model_outputs of
        [] \<Rightarrow> raise (PyException ''IndexError'' ''list index out of range'')
      | (k, v) # _ \<Rightarrow> ret v)"

definition keys_first :: "(string \<times> string) list \<Rightarrow> ('w, string) action" where
  "keys_first model_outputs =
     (case model_outputs of
        [] \<Rightarrow> raise (PyException ''IndexError'' ''list index out of range'')
      | (k, v) # _ \<Rightarrow> ret k)"

definition prepare_numbered_outputs ::
  "(string \<times> string) list \<Rightarrow> (int \<times> (string \<times> string)) list" where
  "prepare_numbered_outputs model_outputs =
     zip (map int [1..<Suc (length model_outputs)]) model_outputs"

definition build_selection_prompt :: "'s env \<Rightarrow> (int \<times> (string \<times> string)) list \<Rightarrow> string" where
  "build_selection_prompt self numbered_outputs =
     CSV_OUTPUT_SELECTION_USER_PROMPT_TEMPLATE_format self
       (py_join newline
          (map (\<lambda>(num, (m, output)). ''=== OUTPUT '' @ str_int num @ '' ==='' @ newline @ output @ newline)
             numbered_outputs))
       (str_nat (length numbered_outputs))"

text \<open>The classes of \<^verbatim>\<open>OpenAIError\<close> are written with that class name.\<close>

definition make_api_call :: "'s env \<Rightarrow> chat_request \<Rightarrow> (('s, 'm) world_scheme, string option list) action" where
  "make_api_call self req =
     try_except (call_chat_completions_create self req)
       (\<lambda>e. and_then
               (logger ERROR
                  ((if exc_class e = ''OpenAIError'' then ''Azure OpenAI API error: ''
                    else ''Unexpected error during OpenAI call: '') @ exc_str e))
               (\<lambda>_. raise e))"

text \<open>\<^verbatim>\<open>response.choices[0].message.content\<close>\<close>

definition first_choice_content :: "string option list \<Rightarrow> ('w, string option) action" where
  "first_choice_content response =
     (case response of
        [] \<Rightarrow> raise (PyException ''IndexError'' ''list index out of range'')
      | content # _ \<Rightarrow> ret content)"

definition extract_response_content :: "string option list \<Rightarrow> ('w, string) action" where
  "extract_response_content response =
     and_then (first_choice_content response)
       (\<lambda>content. case content of
                     None \<Rightarrow> raise (PyException ''OpenAIServiceError'' ''Response content is None'')
                   | Some c \<Rightarrow> ret (py_strip c))"

definition get_selection_number :: "'s env \<Rightarrow> string \<Rightarrow> (('s, 'm) world_scheme, int) action" where
  "get_selection_number self selection_prompt =
     (let judge_model =
            (if best_output_selector_model self \<noteq> [] then best_output_selector_model self
             else azure_openai_deployment_name self)
      in and_then
           (make_api_call self
              \<lparr>request_model = judge_model,
               system_content = CSV_OUTPUT_SELECTION_SYSTEM_PROMPT self,
               user_content = selection_prompt,
               temperature_percent = 30,
               max_completion_tokens = SELECTION_MAX_TOKENS\<rparr>)
           (\<lambda>response. and_then (extract_response_content response)
           (\<lambda>selection_text.
              case py_int selection_text of
                Some n \<Rightarrow> ret n
              | None \<Rightarrow> raise (PyException ''ValueError'' (''Invalid selection response: '' @ selection_text)))))"

definition get_selected_output ::
  "(int \<times> (string \<times> string)) list \<Rightarrow> int \<Rightarrow> (string \<times> string) list \<Rightarrow> (('s, 'm) world_scheme, string) action" where
  "get_selected_output numbered_outputs selected_num model_outputs =
     (case map_of numbered_outputs selected_num of
        Some (selected_model, selected_output) \<Rightarrow>
          and_then
            (logger INFO (''Selected best output from model: '' @ selected_model @ '' (output #''
                          @ str_int selected_num @ '')''))
            (\<lambda>_. ret selected_output)
      | None \<Rightarrow>
          and_then
            (logger WARNING (''Invalid selection number: '' @ str_int selected_num @ ''. Using first available.''))
            (\<lambda>_. values_first model_outputs))"

definition select_best_csv_output ::
  "'s env \<Rightarrow> (string \<times> string) list \<Rightarrow> (('s, 'm) world_scheme, string) action" where
  "select_best_csv_output self model_outputs =
     and_then
       (logger INFO (''Selecting best output from '' @ str_nat (length model_outputs) @ '' model responses''))
       (\<lambda>_. if length model_outputs = 1 then values_first model_outputs
             else
               (let numbered_outputs = prepare_numbered_outputs model_outputs;
                    selection_prompt = build_selection_prompt self numbered_outputs
                in try_except
                     (and_then (get_selection_number self selection_prompt)
                        (\<lambda>selected_number.
                           get_selected_output numbered_outputs selected_number model_outputs))
                     (\<lambda>e. and_then
                             (logger ERROR (''Error selecting best output: '' @ exc_str e @ '', using first model''))
                             (\<lambda>_. values_first model_outputs))))"


section \<open>services/csv_comparison_agent_service.py\<close>

record agent_context =
  model_name :: string
  file_ids :: "string list"
  agent_id :: "string option"
  thread_id :: "string option"
  tmp_files :: "string list"

text \<open>\<^verbatim>\<open>AgentContext(model_name)\<close>\<close>

definition AgentContext :: "string \<Rightarrow> agent_context" where
  "AgentContext mname =
     \<lparr>model_name = mname, file_ids = [], agent_id = None, thread_id = None, tmp_files = []\<rparr>"

definition MAX_ATTEMPTS :: nat where
  "MAX_ATTEMPTS = 3"

definition TASK_COMPLETION_MARKER :: string where
  "TASK_COMPLETION_MARKER = ''TASK COMPLETED''"

text \<open>\<^verbatim>\<open>self.model_deployments\<close> as \<^verbatim>\<open>_initialize_model_deployments\<close> sets it.\<close>

definition csv_model_deployments :: "'s env \<Rightarrow> string list" where
  "csv_model_deployments self =
     (case config_model_deployments self of Some ms \<Rightarrow> ms | None \<Rightarrow> [self_model_name self])"

definition is_single_model_mode :: "'s env \<Rightarrow> bool" where
  "is_single_model_mode self =
     (config_model_deployments self = None \<or> length (csv_model_deployments self) = 1)"

text \<open>The two temporary paths of \<^verbatim>\<open>_prepare_comparison_files\<close>.\<close>

definition tmp_python :: "string \<Rightarrow> string" where
  "tmp_python mname = ''/tmp/ported_python_output_'' @ py_replace ''.'' ''_'' mname @ ''.csv''"

definition tmp_legacy :: "string \<Rightarrow> string" where
  "tmp_legacy mname = ''/tmp/correct_legacy_etl_output_'' @ py_replace ''.'' ''_'' mname @ ''.csv''"

definition prepare_comparison_files ::
  "'s env \<Rightarrow> string \<Rightarrow> string \<Rightarrow> string \<Rightarrow> (('s, agent_context) task, unit) action" where
  "prepare_comparison_files self python_path legacy_path mname =
     and_then
       (copy_files_to_temp self [(python_path, tmp_python mname), (legacy_path, tmp_legacy mname)])
       (\<lambda>files. modify_ctx (\<lambda>c. c\<lparr>tmp_files := files\<rparr>))"

fun upload_each :: "'s env \<Rightarrow> string list \<Rightarrow> (('s, agent_context) task, unit) action" where
  "upload_each self [] = ret ()"
| "upload_each self (file_path # rest) =
     and_then (call_files_upload_and_poll self file_path None)
       (\<lambda>fid. and_then (modify_ctx (\<lambda>c. c\<lparr>file_ids := file_ids c @ [fid]\<rparr>))
       (\<lambda>_. and_then (logger INFO (''Uploaded '' @ file_path @ '', file ID: '' @ fid))
       (\<lambda>_. upload_each self rest)))"

definition upload_files_to_agent :: "'s env \<Rightarrow> (('s, agent_context) task, unit) action" where
  "upload_files_to_agent self = and_then get_ctx (\<lambda>c. upload_each self (tmp_files c))"

definition create_and_configure_agent :: "'s env \<Rightarrow> string \<Rightarrow> (('s, agent_context) task, unit) action" where
  "create_and_configure_agent self mname =
     and_then get_ctx
       (\<lambda>c. and_then
               (call_create_agent self mname (''csv-comparison-agent-'' @ py_replace ''.'' ''-'' mname)
                  (AGENT_DEFAULT_INSTRUCTIONS self) (file_ids c))
       (\<lambda>aid. and_then (modify_ctx (\<lambda>c. c\<lparr>agent_id := Some aid\<rparr>))
       (\<lambda>_. and_then (call_threads_create self)
       (\<lambda>tid. modify_ctx (\<lambda>c. c\<lparr>thread_id := Some tid\<rparr>)))))"

definition get_last_agent_message ::
  "'s env \<Rightarrow> string option \<Rightarrow> (('s, 'm) world_scheme, last_message) action" where
  "get_last_agent_message self tid = call_messages_get_last_message_text_by_role self tid"

definition is_task_completed :: "last_message \<Rightarrow> bool" where
  "is_task_completed message =
     (case message of
        NoMessage \<Rightarrow> False
      | MessageWithoutText \<Rightarrow> False
      | MessageText v \<Rightarrow> py_in TASK_COMPLETION_MARKER v)"

definition send_continuation_prompt ::
  "'s env \<Rightarrow> string option \<Rightarrow> (('s, 'm) world_scheme, unit) action" where
  "send_continuation_prompt self tid =
     call_messages_create self tid ''user'' (AGENT_CONTINUATION_PROMPT self)"

definition format_csv_name :: "string \<Rightarrow> string" where
  "format_csv_name t =
     py_title (py_replace ''_'' '' '' (py_replace ''.csv'' [] (last_segment t)))"

definition download_and_read_csv ::
  "'s env \<Rightarrow> string \<Rightarrow> string \<Rightarrow> (('s, 'm) world_scheme, string option) action" where
  "download_and_read_csv self fid mname =
     (let file_name = fid @ ''_csv_'' @ py_replace ''.'' ''_'' mname
      in try_except
           (and_then (call_files_save self fid file_name None)
              (\<lambda>_. and_then (call_open_read self file_name)
              (\<lambda>content. and_then (call_os_remove self file_name)
              (\<lambda>_. ret (Some content)))))
           (\<lambda>e. and_then (logger ERROR (''Error reading CSV file '' @ fid @ '': '' @ exc_str e))
                  (\<lambda>_. ret None)))"

text \<open>The two nested loops of \<^verbatim>\<open>_extract_csv_results\<close> run over the annotations of all
  messages in order; \<^verbatim>\<open>if csv_content:\<close> drops \<open>None\<close> and the empty string.\<close>

fun extract_each ::
  "'s env \<Rightarrow> annotation list \<Rightarrow> string \<Rightarrow> string list \<Rightarrow> (('s, 'm) world_scheme, string list) action" where
  "extract_each self [] mname result_parts = ret result_parts"
| "extract_each self (a # rest) mname result_parts =
     and_then (download_and_read_csv self (file_path_file_id a) mname)
       (\<lambda>csv_content.
          extract_each self rest mname
            (case csv_content of
               None \<Rightarrow> result_parts
             | Some content \<Rightarrow>
                 if content \<noteq> [] then
                   result_parts @
                     [''# '' @ format_csv_name (annotation_text a) @ newline @ content @ newline @ newline]
                 else result_parts))"

definition extract_csv_results ::
  "'s env \<Rightarrow> string option \<Rightarrow> string \<Rightarrow> (('s, 'm) world_scheme, string) action" where
  "extract_csv_results self tid mname =
     and_then (call_messages_list self tid)
       (\<lambda>messages. and_then (extract_each self (concat (map file_path_annotations messages)) mname [])
       (\<lambda>result_parts. ret (concat result_parts)))"

text \<open>The loop \<^verbatim>\<open>for attempt in range(1, self.MAX_ATTEMPTS + 1)\<close> of
  \<^verbatim>\<open>_execute_agent_task\<close>, and what follows it.\<close>

fun attempts :: "'s env \<Rightarrow> nat list \<Rightarrow> (('s, agent_context) task, string) action" where
  "attempts self [] =
     and_then get_ctx
       (\<lambda>c. ret (''Maximum attempts reached without task completion for model '' @ model_name c))"
| "attempts self (attempt # rest) =
     and_then get_ctx
       (\<lambda>c. and_then (call_runs_create_and_process self (thread_id c) (agent_id c))
       (\<lambda>r. if status r = ''failed'' then
               and_then
                 (logger ERROR (''Run failed for model '' @ model_name c @ '': '' @ last_error r))
                 (\<lambda>_. ret (''Run failed: '' @ last_error r))
             else
               and_then (get_last_agent_message self (thread_id c))
                 (\<lambda>last_message.
                    if is_task_completed last_message
                    then extract_csv_results self (thread_id c) (model_name c)
                    else
                      and_then
                        (if attempt < MAX_ATTEMPTS then send_continuation_prompt self (thread_id c)
                         else ret ())
                        (\<lambda>_. attempts self rest))))"

definition execute_agent_task :: "'s env \<Rightarrow> string \<Rightarrow> (('s, agent_context) task, string) action" where
  "execute_agent_task self task_text =
     and_then get_ctx
       (\<lambda>c. and_then (call_messages_create self (thread_id c) ''user'' task_text)
       (\<lambda>_. attempts self [1..<MAX_ATTEMPTS + 1]))"

text \<open>\<^verbatim>\<open>CSVComparisonAgentService._cleanup_agent_resources(context)\<close>\<close>

definition cleanup_agent_resources :: "'s env \<Rightarrow> (('s, agent_context) task, unit) action" where
  "cleanup_agent_resources self =
     and_then get_ctx
       (\<lambda>c. and_then
               (base_cleanup_agent_resources self (thread_id c) (agent_id c) (Some (file_ids c))
                  (model_name c))
       (\<lambda>_. cleanup_temp_files self (tmp_files c)))"

definition run_comparison_sync ::
  "'s env \<Rightarrow> string \<Rightarrow> string \<Rightarrow> string \<Rightarrow> string \<Rightarrow> ('s world, string) action" where
  "run_comparison_sync self python_output_path legacy_output_path task_text mname =
     with_ctx (AgentContext mname)
       (try_finally
          (try_except
             (and_then (prepare_comparison_files self python_output_path legacy_output_path mname)
                (\<lambda>_. and_then (upload_files_to_agent self)
                (\<lambda>_. and_then (create_and_configure_agent self mname)
                (\<lambda>_. execute_agent_task self task_text))))
             (\<lambda>e. and_then
                     (logger ERROR (''Error during comparison with agent '' @ mname @ '': '' @ exc_str e))
                     (\<lambda>_. ret (''An error occurred during agent processing with model '' @ mname
                                  @ '': '' @ exc_str e))))
          (cleanup_agent_resources self))"

text \<open>\<^verbatim>\<open>_run_single_comparison\<close> hands \<^verbatim>\<open>_run_comparison_sync\<close> to the thread pool and awaits
  its outcome.\<close>

definition run_single_comparison ::
  "'s env \<Rightarrow> string \<Rightarrow> string \<Rightarrow> string \<Rightarrow> string \<Rightarrow> ('s world, string) action" where
  "run_single_comparison self python_output_path legacy_output_path task_text mname =
     run_comparison_sync self python_output_path legacy_output_path task_text mname"

text \<open>
  \<^verbatim>\<open>asyncio.gather(*coroutines, return_exceptions=True)\<close> is a parameter: any function
  that takes the coroutines and yields one outcome for each (an exception object or a
  returned string). \<open>gather_in_order\<close> is the schedule that runs them one after the other.
\<close>

type_synonym 's gather =
  "('s world, string) action list \<Rightarrow> ('s world, (py_exception + string) list) action"

fun gather_in_order :: "'s gather" where
  "gather_in_order [] w = (Inr [], w)"
| "gather_in_order (m # ms) w =
     (case m w of
        (r, w1) \<Rightarrow>
          (case gather_in_order ms w1 of
             (Inr rs, w2) \<Rightarrow> (Inr (r # rs), w2)
           | (Inl e, w2) \<Rightarrow> (Inl e, w2)))"

fun collect_each ::
  "(string \<times> (py_exception + string)) list \<Rightarrow> (string \<times> string) list
   \<Rightarrow> (('s, 'm) world_scheme, (string \<times> string) list) action" where
  "collect_each [] model_outputs = ret model_outputs"
| "collect_each ((model, result) # rest) model_outputs =
     (case result of
        Inl e \<Rightarrow>
          and_then (logger ERROR (''Model '' @ model @ '' failed: '' @ exc_str e))
            (\<lambda>_. collect_each rest model_outputs)
      | Inr s \<Rightarrow>
          if \<not> startswith s ''Error:''
          then collect_each rest (AList.update model s model_outputs)
          else collect_each rest model_outputs)"

definition collect_successful_outputs ::
  "'s env \<Rightarrow> (py_exception + string) list \<Rightarrow> (('s, 'm) world_scheme, (string \<times> string) list) action" where
  "collect_successful_outputs self results =
     collect_each (zip (csv_model_deployments self) results) []"

definition run_parallel_comparisons ::
  "'s env \<Rightarrow> 's gather \<Rightarrow> string \<Rightarrow> string \<Rightarrow> string \<Rightarrow> ('s world, string) action" where
  "run_parallel_comparisons self gather python_output_path legacy_output_path task_text =
     and_then
       (logger INFO (''Processing files with '' @ str_nat (length (csv_model_deployments self))
                     @ '' models in parallel''))
       (\<lambda>_. and_then
               (gather (map (run_single_comparison self python_output_path legacy_output_path task_text)
                          (csv_model_deployments self)))
       (\<lambda>results. and_then (collect_successful_outputs self results)
       (\<lambda>model_outputs.
          if model_outputs = [] then ret ''Error: All models failed to process the files''
          else if length model_outputs = 1 then values_first model_outputs
          else select_best_csv_output self model_outputs)))"

definition compare_csv_files ::
  "'s env \<Rightarrow> 's gather \<Rightarrow> string \<Rightarrow> string \<Rightarrow> string \<Rightarrow> ('s world, string) action" where
  "compare_csv_files self gather python_output_path legacy_output_path task_text =
     (if is_single_model_mode self
      then run_single_comparison self python_output_path legacy_output_path task_text (self_model_name self)
      else run_parallel_comparisons self gather python_output_path legacy_output_path task_text)"

section \<open>services/reorder_service.py\<close>

record reorder_context = agent_context +
  model_index :: int

text \<open>\<^verbatim>\<open>ReorderContext(model_name, model_index)\<close>\<close>

definition ReorderContext :: "string \<Rightarrow> int \<Rightarrow> reorder_context" where
  "ReorderContext mname idx =
     \<lparr>model_name = mname, file_ids = [], agent_id = None, thread_id = None, tmp_files = [],
      model_index = idx\<rparr>"

definition DEFAULT_MODEL :: string where
  "DEFAULT_MODEL = ''gpt-4''"

definition CSV_HEAD_LINES :: nat where
  "CSV_HEAD_LINES = 20"

definition CSV_SAMPLE_LINES :: nat where
  "CSV_SAMPLE_LINES = 5"

definition reorder_model_deployments :: "'s env \<Rightarrow> string list" where
  "reorder_model_deployments self =
     (case config_model_deployments self of Some ms \<Rightarrow> ms | None \<Rightarrow> [DEFAULT_MODEL])"

text \<open>The two temporary paths of \<^verbatim>\<open>_prepare_reorder_files\<close>.\<close>

definition tmp_source :: "int \<Rightarrow> string" where
  "tmp_source idx = ''/tmp/source_data_'' @ str_int idx @ ''.csv''"

definition tmp_legacy_reorder :: "int \<Rightarrow> string" where
  "tmp_legacy_reorder idx = ''/tmp/legacy_etl_output_'' @ str_int idx @ ''.csv''"

definition prepare_reorder_files ::
  "'s env \<Rightarrow> string \<Rightarrow> string \<Rightarrow> (('s, reorder_context) task, unit) action" where
  "prepare_reorder_files self source_path legacy_path =
     and_then get_ctx
       (\<lambda>c. and_then
               (copy_files_to_temp self
                  [(source_path, tmp_source (model_index c)),
                   (legacy_path, tmp_legacy_reorder (model_index c))])
       (\<lambda>files. modify_ctx (\<lambda>c. c\<lparr>tmp_files := files\<rparr>)))"

fun upload_each_for_reordering :: "'s env \<Rightarrow> string list \<Rightarrow> (('s, reorder_context) task, unit) action" where
  "upload_each_for_reordering self [] = ret ()"
| "upload_each_for_reordering self (file_path # rest) =
     and_then (call_files_upload_and_poll self file_path (Some (last_segment file_path)))
       (\<lambda>fid. and_then (modify_ctx (\<lambda>c. c\<lparr>file_ids := file_ids c @ [fid]\<rparr>))
       (\<lambda>_. and_then (logger INFO (''Uploaded '' @ file_path @ '' for reordering, file ID: '' @ fid))
       (\<lambda>_. upload_each_for_reordering self rest)))"

definition upload_files_for_reordering :: "'s env \<Rightarrow> (('s, reorder_context) task, unit) action" where
  "upload_files_for_reordering self =
     and_then get_ctx (\<lambda>c. upload_each_for_reordering self (tmp_files c))"

definition quoted :: "string \<Rightarrow> string" where
  "quoted m = [CHR 0x27] @ m @ [CHR 0x27]"

definition REORDER_AGENT_INSTRUCTIONS :: string where
  "REORDER_AGENT_INSTRUCTIONS =
     ''You are a data reordering specialist. Follow the user'' @ [CHR 0x27]
     @ ''s instructions precisely.''"

definition create_reorder_agent :: "'s env \<Rightarrow> (('s, reorder_context) task, unit) action" where
  "create_reorder_agent self =
     and_then get_ctx
       (\<lambda>c. and_then
               (call_create_agent self (model_name c) (''reorder_agent_'' @ str_int (model_index c))
                  REORDER_AGENT_INSTRUCTIONS (file_ids c))
       (\<lambda>aid. and_then (modify_ctx (\<lambda>c. c\<lparr>agent_id := Some aid\<rparr>))
       (\<lambda>_. and_then (call_threads_create self)
       (\<lambda>tid. modify_ctx (\<lambda>c. c\<lparr>thread_id := Some tid\<rparr>)))))"

text \<open>\<^verbatim>\<open>_process_single_reordered_file\<close>: the renaming branch compares a path with itself
  and is never taken. The dictionary \<open>reordered_content\<close> is returned updated.\<close>

definition process_single_reordered_file ::
  "'s env \<Rightarrow> annotation \<Rightarrow> string \<Rightarrow> (string \<times> string) list
   \<Rightarrow> (('s, reorder_context) task, (string \<times> string) list) action" where
  "process_single_reordered_file self a target_dir reordered_content =
     and_then get_ctx
       (\<lambda>c. let fid = file_path_file_id a;
                 base_filename = last_segment (py_lower (annotation_text a));
                 temp_filename = ''model_'' @ str_int (model_index c) @ ''_'' @ base_filename;
                 temp_path = os_path_join target_dir temp_filename
             in and_then (call_files_save self fid temp_filename (Some target_dir))
                  (\<lambda>_. let final_filename = temp_filename;
                            final_path = os_path_join target_dir final_filename
                        in and_then
                             (if temp_path \<noteq> final_path then call_os_rename self temp_path final_path
                              else ret ())
                             (\<lambda>_. and_then (call_open_read self final_path)
                             (\<lambda>content. ret (AList.update final_filename content reordered_content)))))"

fun process_each ::
  "'s env \<Rightarrow> annotation list \<Rightarrow> string \<Rightarrow> (string \<times> string) list
   \<Rightarrow> (('s, reorder_context) task, (string \<times> string) list) action" where
  "process_each self [] target_dir reordered_content = ret reordered_content"
| "process_each self (a # rest) target_dir reordered_content =
     and_then (process_single_reordered_file self a target_dir reordered_content)
       (\<lambda>updated. process_each self rest target_dir updated)"

definition format_reorder_results :: "(string \<times> string) list \<Rightarrow> string" where
  "format_reorder_results reordered_content =
     concat ((''# Reordering Analysis'' @ newline)
             # concat (map (\<lambda>(file_name, content).
                              [newline @ ''## '' @ file_name @ newline, content, newline])
                         reordered_content))"

text \<open>Every message has the attribute \<^verbatim>\<open>file_path_annotations\<close>.\<close>

definition process_reorder_results :: "'s env \<Rightarrow> string \<Rightarrow> (('s, reorder_context) task, string) action" where
  "process_reorder_results self legacy_path =
     and_then get_ctx
       (\<lambda>c. and_then (call_messages_list self (thread_id c))
       (\<lambda>messages.
          let target_dir = os_path_dirname legacy_path
          in and_then
               (process_each self
                  (concat (map file_path_annotations (filter (\<lambda>msg. role msg = AGENT) messages)))
                  target_dir [])
               (\<lambda>reordered_content.
                  if reordered_content = [] then ret ''Error: No reordered output was generated''
                  else ret (format_reorder_results reordered_content))))"

definition execute_reorder_task :: "'s env \<Rightarrow> string \<Rightarrow> (('s, reorder_context) task, string) action" where
  "execute_reorder_task self legacy_path =
     and_then get_ctx
       (\<lambda>c. and_then (call_messages_create self (thread_id c) ''user'' (REORDER_TASK_PROMPT self))
       (\<lambda>_. and_then (call_runs_create_and_process self (thread_id c) (agent_id c))
       (\<lambda>r. if status r = ''failed'' then
               and_then
                 (logger ERROR (''Reorder run failed for model '' @ model_name c @ '': '' @ last_error r))
                 (\<lambda>_. ret (''Error: Run failed: '' @ last_error r))
             else process_reorder_results self legacy_path)))"

definition cleanup_reorder_resources :: "'s env \<Rightarrow> (('s, reorder_context) task, unit) action" where
  "cleanup_reorder_resources self =
     and_then get_ctx
       (\<lambda>c. and_then
               (base_cleanup_agent_resources self (thread_id c) (agent_id c) (Some (file_ids c)) [])
       (\<lambda>_. cleanup_temp_files self (tmp_files c)))"

definition run_reorder_sync ::
  "'s env \<Rightarrow> string \<Rightarrow> string \<Rightarrow> string \<Rightarrow> int \<Rightarrow> ('s world, string) action" where
  "run_reorder_sync self source_path legacy_path mname idx =
     with_ctx (ReorderContext mname idx)
       (and_then
          (logger INFO (''Running reorder agent '' @ str_int idx @ '' with model: '' @ mname))
          (\<lambda>_. try_finally
                  (try_except
                     (and_then (prepare_reorder_files self source_path legacy_path)
                        (\<lambda>_. and_then (upload_files_for_reordering self)
                        (\<lambda>_. and_then (create_reorder_agent self)
                        (\<lambda>_. execute_reorder_task self legacy_path))))
                     (\<lambda>e. and_then
                             (logger ERROR (''Error during reordering with model '' @ mname @ '': '' @ exc_str e))
                             (\<lambda>_. ret (''Error: '' @ exc_str e))))
                  (cleanup_reorder_resources self)))"

definition run_single_reorder ::
  "'s env \<Rightarrow> string \<Rightarrow> string \<Rightarrow> string \<Rightarrow> int \<Rightarrow> ('s world, string) action" where
  "run_single_reorder self source_path legacy_path mname idx =
     run_reorder_sync self source_path legacy_path mname idx"

fun collect_reorder_each ::
  "(string \<times> (py_exception + string)) list \<Rightarrow> (string \<times> string) list
   \<Rightarrow> (('s, 'm) world_scheme, (string \<times> string) list) action" where
  "collect_reorder_each [] model_outputs = ret model_outputs"
| "collect_reorder_each ((model, result) # rest) model_outputs =
     (case result of
        Inl e \<Rightarrow>
          and_then (logger ERROR (''Model '' @ model @ '' failed during reordering: '' @ exc_str e))
            (\<lambda>_. collect_reorder_each rest model_outputs)
      | Inr s \<Rightarrow>
          if \<not> startswith s ''Error:''
          then collect_reorder_each rest (AList.update model s model_outputs)
          else collect_reorder_each rest model_outputs)"

text \<open>\<^verbatim>\<open>enumerate(xs)\<close>\<close>

definition enumerate_from0 :: "'a list \<Rightarrow> (nat \<times> 'a) list" where
  "enumerate_from0 xs = zip [0..<length xs] xs"

definition run_parallel_reordering ::
  "'s env \<Rightarrow> 's gather \<Rightarrow> string \<Rightarrow> string \<Rightarrow> ('s world, (string \<times> string) list) action" where
  "run_parallel_reordering self gather source_path legacy_path =
     and_then
       (gather (map (\<lambda>(idx, model). run_single_reorder self source_path legacy_path model (int idx + 1))
                  (enumerate_from0 (reorder_model_deployments self))))
       (\<lambda>results. collect_reorder_each (zip (reorder_model_deployments self) results) [])"

definition read_file_sample :: "'s env \<Rightarrow> string \<Rightarrow> nat \<Rightarrow> (('s, 'm) world_scheme, string) action" where
  "read_file_sample self file_path num_lines =
     and_then (read_file_lines self file_path num_lines)
       (\<lambda>lines. ret (if lines \<noteq> [] then py_join newline lines else ''Error reading file''))"

definition read_csv_head :: "'s env \<Rightarrow> string \<Rightarrow> nat \<Rightarrow> (('s, 'm) world_scheme, string) action" where
  "read_csv_head self file_path num_lines =
     try_except (read_file_sample self file_path num_lines)
       (\<lambda>e. and_then (logger ERROR (''Error reading CSV head: '' @ exc_str e))
              (\<lambda>_. ret (''Error reading file: '' @ exc_str e)))"

text \<open>The loop of \<^verbatim>\<open>_build_comparison_data\<close> over
  \<^verbatim>\<open>enumerate(model_outputs.items(), 1)\<close>.\<close>

fun build_comparison_each ::
  "'s env \<Rightarrow> string \<Rightarrow> (nat \<times> string \<times> string) list \<Rightarrow> string list
   \<Rightarrow> (('s, 'm) world_scheme, string list) action" where
  "build_comparison_each self target_dir [] comparison_parts = ret comparison_parts"
| "build_comparison_each self target_dir ((i, model, output) # rest) comparison_parts =
     (let parts1 = comparison_parts @ [newline @ ''=== MODEL '' @ str_nat i @ '' ('' @ model @ '') ===''];
          source_file = os_path_join target_dir (''model_'' @ str_nat i @ ''_source_data_reordered.csv'');
          legacy_file = os_path_join target_dir (''model_'' @ str_nat i @ ''_legacy_etl_output_reordered.csv'')
      in and_then
           (try_except
              (and_then (read_file_sample self source_file CSV_SAMPLE_LINES)
                 (\<lambda>source_sample. and_then (read_file_sample self legacy_file CSV_SAMPLE_LINES)
                 (\<lambda>legacy_sample.
                    ret (parts1 @
                         [newline @ ''SOURCE REORDERED:'' @ newline @ source_sample @ newline,
                          ''LEGACY ETL OUTPUT REORDERED:'' @ newline @ legacy_sample @ newline]))))
              (\<lambda>e. and_then
                      (logger ERROR (''Error reading reordered files for model '' @ model @ '': '' @ exc_str e))
                      (\<lambda>_. ret (parts1 @ ['' ERROR READING FILES'' @ newline]))))
           (\<lambda>parts2. build_comparison_each self target_dir rest parts2))"

definition build_comparison_data ::
  "'s env \<Rightarrow> string \<Rightarrow> string \<Rightarrow> (string \<times> string) list \<Rightarrow> (('s, 'm) world_scheme, string) action" where
  "build_comparison_data self source_path source_head model_outputs =
     and_then
       (build_comparison_each self (os_path_dirname source_path)
          (zip [1..<Suc (length model_outputs)] model_outputs)
          [''ORIGINAL SOURCE FILE (first '' @ str_nat CSV_HEAD_LINES @ '' lines):'' @ newline
           @ source_head @ newline])
       (\<lambda>comparison_parts. ret (concat comparison_parts))"

text \<open>\<^verbatim>\<open>response.choices[0].message.content.strip()\<close>\<close>

definition get_model_selection :: "'s env \<Rightarrow> string \<Rightarrow> (('s, 'm) world_scheme, string) action" where
  "get_model_selection self selection_prompt =
     and_then
       (call_chat_completions_create self
          \<lparr>request_model = best_output_selector_model self,
           system_content = ''You are an expert at evaluating CSV row ordering. Select the best match.'',
           user_content = selection_prompt,
           temperature_percent = 30,
           max_completion_tokens = 50\<rparr>)
       (\<lambda>response. and_then (first_choice_content response)
       (\<lambda>content. case content of
                     None \<Rightarrow> raise (PyException ''AttributeError''
                                       (quoted ''NoneType'' @ '' object has no attribute '' @ quoted ''strip''))
                   | Some c \<Rightarrow> ret (py_strip c)))"

text \<open>\<^verbatim>\<open>xs.index(x)\<close>; \<open>None\<close> stands for \<^verbatim>\<open>ValueError\<close>.\<close>

fun py_index :: "'a list \<Rightarrow> 'a \<Rightarrow> nat option" where
  "py_index [] x = None"
| "py_index (y # ys) x = (if y = x then Some 0 else map_option Suc (py_index ys x))"

fun remove_non_winning :: "'s env \<Rightarrow> string \<Rightarrow> string \<Rightarrow> string list \<Rightarrow> (('s, 'm) world_scheme, unit) action" where
  "remove_non_winning self target_dir winning_prefix [] = ret ()"
| "remove_non_winning self target_dir winning_prefix (file_name # rest) =
     and_then
       (if \<not> startswith file_name winning_prefix then
          try_except
            (and_then (call_os_remove self (os_path_join target_dir file_name))
               (\<lambda>_. logger INFO (''Removed non-winning model file: '' @ file_name)))
            (\<lambda>e. logger ERROR (''Error removing file '' @ file_name @ '': '' @ exc_str e))
        else ret ())
       (\<lambda>_. remove_non_winning self target_dir winning_prefix rest)"

fun rename_winning :: "'s env \<Rightarrow> string \<Rightarrow> string \<Rightarrow> string list \<Rightarrow> (('s, 'm) world_scheme, unit) action" where
  "rename_winning self target_dir winning_prefix [] = ret ()"
| "rename_winning self target_dir winning_prefix (file_name # rest) =
     (let old_path = os_path_join target_dir file_name;
          new_name = py_replace winning_prefix [] file_name;
          new_path = os_path_join target_dir new_name
      in and_then (call_os_path_exists self new_path)
           (\<lambda>found. and_then
                       (if found then
                          and_then (call_os_remove self new_path)
                            (\<lambda>_. logger INFO (''Removed existing file: '' @ new_name))
                        else ret ())
           (\<lambda>_. and_then (call_os_rename self old_path new_path)
           (\<lambda>_. and_then (logger INFO (''Renamed winning file from '' @ file_name @ '' to '' @ new_name))
           (\<lambda>_. rename_winning self target_dir winning_prefix rest)))))"

definition cleanup_non_winning_files :: "'s env \<Rightarrow> string \<Rightarrow> string \<Rightarrow> (('s, 'm) world_scheme, unit) action" where
  "cleanup_non_winning_files self source_path winning_model =
     (let target_dir = os_path_dirname source_path
      in case py_index (reorder_model_deployments self) winning_model of
           None \<Rightarrow> raise (PyException ''ValueError'' (winning_model @ '' is not in list''))
         | Some i \<Rightarrow>
             (let winning_prefix = ''model_'' @ str_int (int i + 1) @ ''_''
              in and_then (call_os_listdir self target_dir)
                   (\<lambda>listing.
                      let all_model_files =
                            filter (\<lambda>f. startswith f ''model_'' \<and> endswith f ''.csv'') listing
                      in and_then (remove_non_winning self target_dir winning_prefix all_model_files)
                           (\<lambda>_. rename_winning self target_dir winning_prefix
                                   (filter (\<lambda>f. startswith f winning_prefix) all_model_files)))))"

definition select_best_reordering ::
  "'s env \<Rightarrow> string \<Rightarrow> (string \<times> string) list \<Rightarrow> (('s, 'm) world_scheme, string) action" where
  "select_best_reordering self source_file_path model_outputs =
     and_then (read_csv_head self source_file_path CSV_HEAD_LINES)
       (\<lambda>source_head. and_then (build_comparison_data self source_file_path source_head model_outputs)
       (\<lambda>comparison_data.
          let selection_prompt =
                REORDER_SELECTION_PROMPT_TEMPLATE_format self comparison_data
                  (py_join '', '' (map quoted (reorder_model_deployments self)))
          in try_except
               (and_then (get_model_selection self selection_prompt)
                  (\<lambda>selected_model.
                     if selected_model \<in> set (map fst model_outputs) then
                       and_then (cleanup_non_winning_files self source_file_path selected_model)
                         (\<lambda>_. and_then
                                 (logger INFO (''Selected best reordering from model: '' @ selected_model))
                         (\<lambda>_. ret selected_model))
                     else
                       and_then (keys_first model_outputs)
                         (\<lambda>fallback.
                            and_then
                              (logger WARNING (''Invalid model selection '' @ quoted selected_model
                                               @ '', using fallback: '' @ fallback))
                              (\<lambda>_. ret fallback))))
               (\<lambda>e. and_then (logger ERROR (''Error selecting best reordering: '' @ exc_str e))
                      (\<lambda>_. keys_first model_outputs))))"

text \<open>\<^verbatim>\<open>model_outputs[model_name]\<close>\<close>

definition getitem :: "(string \<times> string) list \<Rightarrow> string \<Rightarrow> ('w, string) action" where
  "getitem model_outputs k =
     (case map_of model_outputs k of
        None \<Rightarrow> raise (PyException ''KeyError'' (quoted k))
      | Some v \<Rightarrow> ret v)"

definition reorder_csv_files ::
  "'s env \<Rightarrow> 's gather \<Rightarrow> string \<Rightarrow> string \<Rightarrow> ('s world, string \<times> string) action" where
  "reorder_csv_files self gather source_file_path legacy_output_path =
     and_then
       (logger INFO (''Starting reordering with '' @ str_nat (length (reorder_model_deployments self))
                     @ '' models''))
       (\<lambda>_. and_then (run_parallel_reordering self gather source_file_path legacy_output_path)
       (\<lambda>model_outputs.
          if model_outputs = [] then
            raise (PyException ''ReorderServiceError'' ''All models failed to reorder the files'')
          else if length model_outputs = 1 then
            and_then (keys_first model_outputs)
              (\<lambda>mname. and_then (getitem model_outputs mname) (\<lambda>v. ret (v, mname)))
          else
            and_then (select_best_reordering self source_file_path model_outputs)
              (\<lambda>best_model. and_then (getitem model_outputs best_model)
              (\<lambda>v. ret (v, best_model)))))"

section \<open>Observations on histories\<close>

text \<open>The calls of a history, in order.\<close>

fun calls_of :: "event list \<Rightarrow> call list" where
  "calls_of [] = []"
| "calls_of (Call c r # es) = c # calls_of es"
| "calls_of (Log lvl msg # es) = calls_of es"

text \<open>A history is \<open>guarded\<close> for a list of calls when it consists of exactly these calls
  in this order, each followed by one log record: at level \<open>ERROR\<close> when the call raised,
  at level \<open>DEBUG\<close> when it returned.\<close>

fun guarded :: "call list \<Rightarrow> event list \<Rightarrow> bool" where
  "guarded [] tr = (tr = [])"
| "guarded (c # cs) (Call c' r # Log lvl msg # rest) =
     (c' = c \<and> (lvl = ERROR) = isl r \<and> (lvl = DEBUG) = (\<not> isl r) \<and> guarded cs rest)"
| "guarded (c # cs) tr = False"

text \<open>The deletions a release is to attempt for a thread id, an agent id and file ids.\<close>

definition release_calls :: "string option \<Rightarrow> string option \<Rightarrow> string list option \<Rightarrow> call list" where
  "release_calls tid aid fids =
     (case tid of Some t \<Rightarrow> if t \<noteq> [] then [Threads_delete t] else [] | None \<Rightarrow> [])
     @ (case fids of Some fs \<Rightarrow> map Files_delete fs | None \<Rightarrow> [])
     @ (case aid of Some a \<Rightarrow> if a \<noteq> [] then [Delete_agent a] else [] | None \<Rightarrow> [])"

definition runs_guarded :: "(('s, 'm) world_scheme, unit) action \<Rightarrow> call list \<Rightarrow> bool" where
  "runs_guarded m cs =
     (\<forall>w. \<exists>s new. m w = (Inr (), w\<lparr>ext := s, trace := trace w @ new\<rparr>) \<and> guarded cs new)"

subsection \<open>A scripted outside world\<close>

text \<open>
  A concrete outside world for running the model: runs and last messages are answered
  from scripts, deletions and downloads of the listed ids raise, files are read from a
  table, everything else succeeds.
\<close>

record script =
  run_script :: "(py_exception + run) list"
  message_script :: "(py_exception + last_message) list"
  failing_ids :: "string list"
  listed_messages :: "thread_message list"
  readable :: "(string \<times> string) list"
  choices :: "py_exception + string option list"

definition refused :: "string \<Rightarrow> py_exception" where
  "refused what = PyException ''HttpResponseError'' (''refused: '' @ what)"

definition unless_failing :: "string \<Rightarrow> 'a \<Rightarrow> script \<Rightarrow> (py_exception + 'a) \<times> script" where
  "unless_failing ident v s = (if ident \<in> set (failing_ids s) then Inl (refused ident) else Inr v, s)"

definition next_run :: "script \<Rightarrow> (py_exception + run) \<times> script" where
  "next_run s =
     (case run_script s of
        [] \<Rightarrow> (Inl (PyException ''RuntimeError'' ''no run scripted''), s)
      | r # rs \<Rightarrow> (r, s\<lparr>run_script := rs\<rparr>))"

definition next_message :: "script \<Rightarrow> (py_exception + last_message) \<times> script" where
  "next_message s =
     (case message_script s of
        [] \<Rightarrow> (Inl (PyException ''RuntimeError'' ''no message scripted''), s)
      | m # ms \<Rightarrow> (m, s\<lparr>message_script := ms\<rparr>))"

definition read_scripted :: "string \<Rightarrow> script \<Rightarrow> (py_exception + string) \<times> script" where
  "read_scripted path s =
     (case map_of (readable s) path of
        None \<Rightarrow> (Inl (PyException ''FileNotFoundError'' path), s)
      | Some content \<Rightarrow> (Inr content, s))"

definition scripted_env :: "string list option \<Rightarrow> script env" where
  "scripted_env deployments =
     \<lparr>agents_client_present = True,
      files_upload_and_poll = (\<lambda>path filename. unless_failing path (''file-'' @ last_segment path)),
      files_delete = (\<lambda>fid. unless_failing fid ()),
      files_save = (\<lambda>fid file_name target_dir. unless_failing fid ()),
      create_agent = (\<lambda>model name instructions fids. unless_failing model (''agent-'' @ model)),
      delete_agent = (\<lambda>aid. unless_failing aid ()),
      threads_create = unless_failing ''thread'' ''thread-1'',
      threads_delete = (\<lambda>tid. unless_failing tid ()),
      messages_create = (\<lambda>tid role_name content. unless_failing content ()),
      runs_create_and_process = (\<lambda>tid aid. next_run),
      messages_get_last_message_text_by_role = (\<lambda>tid. next_message),
      messages_list = (\<lambda>tid s. (Inr (listed_messages s), s)),
      chat_completions_create = (\<lambda>req s. (choices s, s)),
      os_path_exists = (\<lambda>path s. (Inr True, s)),
      shutil_copy2 = (\<lambda>src dst. unless_failing dst ()),
      os_remove = (\<lambda>path. unless_failing path ()),
      os_rename = (\<lambda>src dst. unless_failing dst ()),
      os_listdir = (\<lambda>path s. (Inr [], s)),
      open_read = read_scripted,
      config_model_deployments = deployments,
      best_output_selector_model = ''judge'',
      azure_openai_deployment_name = ''o3'',
      self_model_name = ''gpt-4'',
      AGENT_DEFAULT_INSTRUCTIONS = ''instructions'',
      AGENT_CONTINUATION_PROMPT = ''continue'',
      REORDER_TASK_PROMPT = ''reorder'',
      CSV_OUTPUT_SELECTION_SYSTEM_PROMPT = ''judge the outputs'',
      CSV_OUTPUT_SELECTION_USER_PROMPT_TEMPLATE_format = (\<lambda>outputs n. outputs @ n),
      REORDER_SELECTION_PROMPT_TEMPLATE_format = (\<lambda>data examples. data @ examples)\<rparr>"

definition quiet :: script where
  "quiet =
     \<lparr>run_script = [], message_script = [], failing_ids = [], listed_messages = [], readable = [],
      choices = Inr [Some ''1'']\<rparr>"

definition start :: "script \<Rightarrow> script world" where
  "start s = \<lparr>ext = s, trace = []\<rparr>"

subsection \<open>What a history says about the conversation with an agent\<close>

text \<open>The outcomes of the remote runs of a history, in order.\<close>

fun run_outcomes :: "event list \<Rightarrow> (py_exception + py_value) list" where
  "run_outcomes [] = []"
| "run_outcomes (e # es) =
     (case e of
        Call (Runs_create_and_process t a) r \<Rightarrow> r # run_outcomes es
      | _ \<Rightarrow> run_outcomes es)"

definition runs_made :: "event list \<Rightarrow> nat" where
  "runs_made tr = length (run_outcomes tr)"

text \<open>Some remote run of the history returned with status \<^verbatim>\<open>"failed"\<close>.\<close>

definition failed_outcome :: "py_exception + py_value \<Rightarrow> bool" where
  "failed_outcome r = (case r of Inr (VRun x) \<Rightarrow> status x = ''failed'' | _ \<Rightarrow> False)"

definition run_failed :: "event list \<Rightarrow> bool" where
  "run_failed tr = list_ex failed_outcome (run_outcomes tr)"

text \<open>Some last message fetched in the history carries the completion sentinel.\<close>

definition shows_sentinel :: "event \<Rightarrow> bool" where
  "shows_sentinel e =
     (case e of
        Call (Messages_get_last_message_text_by_role t) (Inr (VLast m)) \<Rightarrow> is_task_completed m
      | _ \<Rightarrow> False)"

definition sentinel_seen :: "event list \<Rightarrow> bool" where
  "sentinel_seen tr = list_ex shows_sentinel tr"

text \<open>Some call of the history raised.\<close>

definition is_raise :: "event \<Rightarrow> bool" where
  "is_raise e = (case e of Call c (Inl x) \<Rightarrow> True | _ \<Rightarrow> False)"

definition raised_any :: "event list \<Rightarrow> bool" where
  "raised_any tr = list_ex is_raise tr"

text \<open>The messages posted to a thread in a history, and: every message is posted at a
  moment when fewer than \<open>MAX_ATTEMPTS\<close> runs have been made (\<open>n\<close> counts the runs so far).\<close>

fun posts :: "event list \<Rightarrow> call list" where
  "posts [] = []"
| "posts (e # es) =
     (case e of
        Call (Messages_create t r c) out \<Rightarrow> Messages_create t r c # posts es
      | _ \<Rightarrow> posts es)"

fun posts_while_attempts_remain :: "nat \<Rightarrow> event list \<Rightarrow> bool" where
  "posts_while_attempts_remain n [] = True"
| "posts_while_attempts_remain n (e # es) =
     (case e of
        Call (Runs_create_and_process t a) r \<Rightarrow> posts_while_attempts_remain (Suc n) es
      | Call (Messages_create t r c) out \<Rightarrow> n < MAX_ATTEMPTS \<and> posts_while_attempts_remain n es
      | _ \<Rightarrow> posts_while_attempts_remain n es)"

text \<open>An event that is no part of the conversation: neither a run, nor a message posted,
  nor a last message fetched.\<close>

definition aside :: "event \<Rightarrow> bool" where
  "aside e =
     (case e of
        Call (Runs_create_and_process t a) r \<Rightarrow> False
      | Call (Messages_create t r c) out \<Rightarrow> False
      | Call (Messages_get_last_message_text_by_role t) out \<Rightarrow> False
      | _ \<Rightarrow> True)"

text \<open>The result of \<^verbatim>\<open>_execute_agent_task\<close> when the attempts are used up.\<close>

definition MAX_ATTEMPTS_EXHAUSTED :: "string \<Rightarrow> string" where
  "MAX_ATTEMPTS_EXHAUSTED mname =
     ''Maximum attempts reached without task completion for model '' @ mname"

text \<open>A history that ends with a run of status \<^verbatim>\<open>"failed"\<close> and the log record of it, the
  result being the failure string made of \<open>label\<close> and the error of that run.\<close>

definition stops_at_failed_run :: "string \<Rightarrow> py_exception + string \<Rightarrow> event list \<Rightarrow> bool" where
  "stops_at_failed_run label res new =
     (\<exists>pre t a r msg.
        new = pre @ [Call (Runs_create_and_process t a) (Inr (VRun r)), Log ERROR msg]
        \<and> status r = ''failed''
        \<and> res = Inr (label @ last_error r))"

subsection \<open>Postconditions\<close>

text \<open>\<open>post m w Q\<close>: run in \<open>w\<close>, the action \<open>m\<close> changes nothing but the outside world and
  the history, and \<open>Q\<close> holds of its outcome and of the events it adds to the history.\<close>

definition post ::
  "(('s, 'm) world_scheme, 'a) action \<Rightarrow> ('s, 'm) world_scheme
   \<Rightarrow> (py_exception + 'a \<Rightarrow> event list \<Rightarrow> bool) \<Rightarrow> bool" where
  "post m w Q = (\<exists>res s new. m w = (res, w\<lparr>ext := s, trace := trace w @ new\<rparr>) \<and> Q res new)"

text \<open>What the attempts from number \<open>k\<close> on achieve.\<close>

definition attempts_Q :: "nat \<Rightarrow> string \<Rightarrow> py_exception + string \<Rightarrow> event list \<Rightarrow> bool" where
  "attempts_Q k name res new =
     (runs_made new \<le> MAX_ATTEMPTS + 1 - k
      \<and> ((res = Inr (MAX_ATTEMPTS_EXHAUSTED name))
           = (\<not> raised_any new \<and> \<not> run_failed new \<and> \<not> sentinel_seen new))
      \<and> posts_while_attempts_remain (k - 1) new
      \<and> (run_failed new \<longrightarrow> stops_at_failed_run ''Run failed: '' res new))"

text \<open>A task of the scripted world whose agent and thread exist already.\<close>

definition running_context :: "string \<Rightarrow> agent_context" where
  "running_context mname =
     (AgentContext mname)\<lparr>file_ids := [''f1''], agent_id := Some ''a1'', thread_id := Some ''t1''\<rparr>"

definition task_start :: "script \<Rightarrow> 'c \<Rightarrow> (script, 'c) task" where
  "task_start s c = \<lparr>ext = s, trace = [], ctx = c\<rparr>"

definition run_with :: "string \<Rightarrow> string \<Rightarrow> py_exception + run" where
  "run_with st err = Inr \<lparr>status = st, last_error = err\<rparr>"

subsection \<open>What a history says about releases\<close>

text \<open>The deletions of remote resources (thread, uploaded file, agent) attempted in a
  history, in order.\<close>

definition is_remote_deletion :: "call \<Rightarrow> bool" where
  "is_remote_deletion c =
     (case c of
        Threads_delete t \<Rightarrow> True
      | Files_delete f \<Rightarrow> True
      | Delete_agent a \<Rightarrow> True
      | _ \<Rightarrow> False)"

definition remote_deletions :: "event list \<Rightarrow> call list" where
  "remote_deletions tr = filter is_remote_deletion (calls_of tr)"

subsection \<open>The dictionary of successful outputs\<close>

text \<open>The dictionary that the collection loops of both services build from the model names
  zipped with the outcomes, leaving the log records aside.\<close>

fun successful :: "(string \<times> (py_exception + string)) list \<Rightarrow> (string \<times> string) list \<Rightarrow> (string \<times> string) list" where
  "successful [] model_outputs = model_outputs"
| "successful ((model, Inl e) # rest) model_outputs = successful rest model_outputs"
| "successful ((model, Inr s) # rest) model_outputs =
     successful rest (if \<not> startswith s ''Error:'' then AList.update model s model_outputs else model_outputs)"

text \<open>A schedule that hands back fixed outcomes without running anything.\<close>

definition gather_constant :: "(py_exception + string) list \<Rightarrow> script gather" where
  "gather_constant results coroutines = ret results"

subsection \<open>What a history says about an extraction\<close>

text \<open>A download that went through (the file was saved, read and removed again), and a
  listing of the messages that raised.\<close>

definition download_completed :: "event \<Rightarrow> bool" where
  "download_completed e = (case e of Call (Os_remove p) (Inr v) \<Rightarrow> True | _ \<Rightarrow> False)"

definition listing_raised :: "event \<Rightarrow> bool" where
  "listing_raised e = (case e of Call (Messages_list t) (Inl x) \<Rightarrow> True | _ \<Rightarrow> False)"

subsection \<open>What a history says about the arbiter\<close>

text \<open>The outcomes of the chat completions of a history, and what the arbiter chose in a
  history with one chat completion: the number it named (comparison) or the name it gave
  (reordering); \<open>None\<close> when the call raised, or gave no choice, no content or no number.\<close>

fun chat_outcomes :: "event list \<Rightarrow> (py_exception + py_value) list" where
  "chat_outcomes [] = []"
| "chat_outcomes (e # es) =
     (case e of
        Call (Chat_completions_create req) r \<Rightarrow> r # chat_outcomes es
      | _ \<Rightarrow> chat_outcomes es)"

definition chosen_name :: "event list \<Rightarrow> string option" where
  "chosen_name tr =
     (case chat_outcomes tr of
        [Inr (VChoices (Some c # cs))] \<Rightarrow> Some (py_strip c)
      | _ \<Rightarrow> None)"

definition chosen_ordinal :: "event list \<Rightarrow> int option" where
  "chosen_ordinal tr = (case chosen_name tr of Some c \<Rightarrow> py_int c | None \<Rightarrow> None)"

text \<open>An outcome that the collection step drops: an exception, or a string that starts
  with \<^verbatim>\<open>"Error:"\<close>.\<close>

definition is_failure :: "py_exception + string \<Rightarrow> bool" where
  "is_failure r = (case r of Inl e \<Rightarrow> True | Inr s \<Rightarrow> startswith s ''Error:'')"

text \<open>The gather of \<^verbatim>\<open>_run_parallel_comparisons\<close> and the gather of
  \<^verbatim>\<open>reorder_csv_files\<close>, each in the state in which it is started.\<close>

definition comparison_fan_out ::
  "'s env \<Rightarrow> 's gather \<Rightarrow> string \<Rightarrow> string \<Rightarrow> string \<Rightarrow> ('s world, (py_exception + string) list) action" where
  "comparison_fan_out self gather python_output_path legacy_output_path task_text w =
     gather (map (run_single_comparison self python_output_path legacy_output_path task_text)
               (csv_model_deployments self))
       (snd (logger INFO (''Processing files with '' @ str_nat (length (csv_model_deployments self))
                          @ '' models in parallel'') w))"

definition reorder_fan_out ::
  "'s env \<Rightarrow> 's gather \<Rightarrow> string \<Rightarrow> string \<Rightarrow> ('s world, (py_exception + string) list) action" where
  "reorder_fan_out self gather source_path legacy_path w =
     gather (map (\<lambda>(idx, model). run_single_reorder self source_path legacy_path model (int idx + 1))
               (enumerate_from0 (reorder_model_deployments self)))
       (snd (logger INFO (''Starting reordering with '' @ str_nat (length (reorder_model_deployments self))
                          @ '' models'') w))"

section \<open>Release of remote resources\<close>

lemma guarded_append: "guarded cs tr \<Longrightarrow> guarded ds tr' \<Longrightarrow> guarded (cs @ ds) (tr @ tr')"
  by (induction cs tr rule: guarded.induct) auto

lemma guarded_calls_of: "guarded cs tr \<Longrightarrow> calls_of tr = cs"
  by (induction cs tr rule: guarded.induct) auto

lemma runs_guarded_ret: "runs_guarded (ret ()) []"
  unfolding runs_guarded_def
proof
  fix w :: "('a, 'b) world_scheme"
  have "ret () w = (Inr (), w\<lparr>ext := ext w, trace := trace w @ []\<rparr>)" by (simp add: ret_def)
  then show "\<exists>s new. ret () w = (Inr (), w\<lparr>ext := s, trace := trace w @ new\<rparr>) \<and> guarded [] new"
    by (metis guarded.simps(1))
qed

lemma runs_guarded_and_then:
  assumes "runs_guarded m cs" and "\<And>u. runs_guarded (f u) ds"
  shows "runs_guarded (and_then m f) (cs @ ds)"
  unfolding runs_guarded_def
proof
  fix w :: "('a, 'b) world_scheme"
  from assms(1) obtain s1 n1 where 1: "m w = (Inr (), w\<lparr>ext := s1, trace := trace w @ n1\<rparr>)"
    and g1: "guarded cs n1" unfolding runs_guarded_def by blast
  let ?w1 = "w\<lparr>ext := s1, trace := trace w @ n1\<rparr>"
  from assms(2)[of "()"] obtain s2 n2
    where 2: "f () ?w1 = (Inr (), ?w1\<lparr>ext := s2, trace := trace ?w1 @ n2\<rparr>)"
    and g2: "guarded ds n2" unfolding runs_guarded_def by blast
  have "and_then m f w = (Inr (), w\<lparr>ext := s2, trace := trace w @ (n1 @ n2)\<rparr>)"
    using 1 2 by (simp add: and_then_def)
  then show "\<exists>s new. and_then m f w = (Inr (), w\<lparr>ext := s, trace := trace w @ new\<rparr>)
               \<and> guarded (cs @ ds) new"
    using guarded_append[OF g1 g2] by blast
qed

text \<open>One deletion inside its own \<^verbatim>\<open>try\<close>/\<^verbatim>\<open>except Exception\<close>.\<close>

lemma runs_guarded_call:
  "runs_guarded
     (try_except (and_then (perform c d f) (\<lambda>_. logger DEBUG ok)) (\<lambda>e. logger ERROR (bad e))) [c]"
  unfolding runs_guarded_def
proof
  fix w :: "('a, 'b) world_scheme"
  obtain r s1 where d: "f (ext w) = (r, s1)" by (cases "f (ext w)")
  define lg where "lg = (case r of Inl e \<Rightarrow> Log ERROR (bad e) | Inr _ \<Rightarrow> Log DEBUG ok)"
  have "try_except (and_then (perform c d f) (\<lambda>_. logger DEBUG ok)) (\<lambda>e. logger ERROR (bad e)) w
        = (Inr (), w\<lparr>ext := s1, trace := trace w @ [Call c (map_sum id d r), lg]\<rparr>)"
    using d by (cases r) (simp_all add: try_except_def and_then_def perform_def logger_def lg_def)
  moreover have "guarded [c] [Call c (map_sum id d r), lg]"
    by (cases r) (simp_all add: lg_def)
  ultimately show
    "\<exists>s new. try_except (and_then (perform c d f) (\<lambda>_. logger DEBUG ok)) (\<lambda>e. logger ERROR (bad e)) w
        = (Inr (), w\<lparr>ext := s, trace := trace w @ new\<rparr>) \<and> guarded [c] new"
    by blast
qed

lemma cleanup_thread_guarded: "runs_guarded (cleanup_thread self t m) [Threads_delete t]"
  unfolding cleanup_thread_def call_threads_delete_def by (rule runs_guarded_call)

lemma cleanup_agent_guarded: "runs_guarded (cleanup_agent self a m) [Delete_agent a]"
  unfolding cleanup_agent_def call_delete_agent_def by (rule runs_guarded_call)

lemma cleanup_files_guarded: "runs_guarded (cleanup_files self fs m) (map Files_delete fs)"
proof (induction fs)
  case Nil
  show ?case by (simp add: runs_guarded_ret)
next
  case (Cons f fs)
  show ?case
    using runs_guarded_and_then[where f="\<lambda>_. cleanup_files self fs m", OF runs_guarded_call Cons.IH]
    by (simp add: call_files_delete_def)
qed

lemma base_cleanup_guarded:
  assumes "agents_client_present self"
  shows "runs_guarded (base_cleanup_agent_resources self tid aid fids m) (release_calls tid aid fids)"
proof -
  have A: "runs_guarded
             (case tid of Some t \<Rightarrow> if t \<noteq> [] then cleanup_thread self t m else ret () | None \<Rightarrow> ret ())
             (case tid of Some t \<Rightarrow> if t \<noteq> [] then [Threads_delete t] else [] | None \<Rightarrow> [])"
    by (simp add: runs_guarded_ret cleanup_thread_guarded split: option.split)
  have B: "runs_guarded
             (case fids of Some fs \<Rightarrow> if fs \<noteq> [] then cleanup_files self fs m else ret () | None \<Rightarrow> ret ())
             (case fids of Some fs \<Rightarrow> map Files_delete fs | None \<Rightarrow> [])"
    by (auto simp: runs_guarded_ret cleanup_files_guarded split: option.split)
  have C: "runs_guarded
             (case aid of Some a \<Rightarrow> if a \<noteq> [] then cleanup_agent self a m else ret () | None \<Rightarrow> ret ())
             (case aid of Some a \<Rightarrow> if a \<noteq> [] then [Delete_agent a] else [] | None \<Rightarrow> [])"
    by (simp add: runs_guarded_ret cleanup_agent_guarded split: option.split)
  show ?thesis
    unfolding base_cleanup_agent_resources_def release_calls_def using assms
    by (simp add: runs_guarded_and_then[OF A runs_guarded_and_then[OF B C]])
qed

text \<open>
  Claim C5. A release with an optional thread id, an optional agent id and a list of file
  ids never raises, and the history it adds consists of exactly the deletion of the thread
  (when the id is set), then of every file in order, then of the agent (when the id is set),
  each deletion followed by its log record: an \<open>ERROR\<close> record when the deletion raised, after
  which the remaining deletions are attempted all the same.
\<close>

theorem release_order_guarded:
  assumes "agents_client_present self"
  shows "\<exists>s new. base_cleanup_agent_resources self tid aid fids m w
            = (Inr (), w\<lparr>ext := s, trace := trace w @ new\<rparr>)
          \<and> calls_of new = release_calls tid aid fids
          \<and> guarded (release_calls tid aid fids) new"
  using base_cleanup_guarded[OF assms, of tid aid fids m] guarded_calls_of
  unfolding runs_guarded_def by blast

theorem release_order_guarded_witness:
  "agents_client_present (scripted_env None)
   \<and> (\<exists>s new.
        base_cleanup_agent_resources (scripted_env None) (Some ''t1'') (Some ''a1'')
          (Some [''f1'', ''f2'']) ''gpt-4'' (start (quiet\<lparr>failing_ids := [''t1'', ''f1'']\<rparr>))
          = (Inr (), (start (quiet\<lparr>failing_ids := [''t1'', ''f1'']\<rparr>))
                       \<lparr>ext := s, trace := trace (start (quiet\<lparr>failing_ids := [''t1'', ''f1'']\<rparr>)) @ new\<rparr>)
        \<and> calls_of new = [Threads_delete ''t1'', Files_delete ''f1'', Files_delete ''f2'', Delete_agent ''a1''])"
proof -
  have h: "agents_client_present (scripted_env None)"
    by (simp add: scripted_env_def)
  show ?thesis
    using h release_order_guarded[OF h, of "Some ''t1''" "Some ''a1''" "Some [''f1'', ''f2'']"
        "''gpt-4''" "start (quiet\<lparr>failing_ids := [''t1'', ''f1'']\<rparr>)"]
    by (auto simp: release_calls_def)
qed

section \<open>Reading histories\<close>

lemma run_outcomes_append [simp]: "run_outcomes (a @ b) = run_outcomes a @ run_outcomes b"
  by (induction a) (auto split: event.splits call.splits)

lemma posts_append [simp]: "posts (a @ b) = posts a @ posts b"
  by (induction a) (auto split: event.splits call.splits)

lemma runs_made_append [simp]: "runs_made (a @ b) = runs_made a + runs_made b"
  by (simp add: runs_made_def)

lemma run_failed_append [simp]: "run_failed (a @ b) = (run_failed a \<or> run_failed b)"
  by (simp add: run_failed_def)

lemma sentinel_seen_append [simp]: "sentinel_seen (a @ b) = (sentinel_seen a \<or> sentinel_seen b)"
  by (simp add: sentinel_seen_def)

lemma raised_any_append [simp]: "raised_any (a @ b) = (raised_any a \<or> raised_any b)"
  by (simp add: raised_any_def)

lemma aside_run_outcomes: "list_all aside tr \<Longrightarrow> run_outcomes tr = []"
  by (induction tr) (auto simp: aside_def split: event.splits call.splits)

lemma aside_posts: "list_all aside tr \<Longrightarrow> posts tr = []"
  by (induction tr) (auto simp: aside_def split: event.splits call.splits)

lemma aside_sentinel: "list_all aside tr \<Longrightarrow> \<not> sentinel_seen tr"
  by (induction tr) (auto simp: aside_def sentinel_seen_def shows_sentinel_def split: event.splits call.splits)

lemma aside_posts_ok: "list_all aside tr \<Longrightarrow> posts_while_attempts_remain n tr"
  by (induction tr arbitrary: n) (auto simp: aside_def split: event.splits call.splits)

lemma posts_ok_append:
  "posts_while_attempts_remain n (a @ b) =
     (posts_while_attempts_remain n a \<and> posts_while_attempts_remain (n + runs_made a) b)"
  by (induction a arbitrary: n) (auto simp: runs_made_def split: event.splits call.splits)

section \<open>A calculus of postconditions\<close>

lemma post_ret: "Q (Inr x) [] \<Longrightarrow> post (ret x) w Q"
  unfolding post_def ret_def
  by (rule exI[of _ "Inr x"], rule exI[of _ "ext w"], rule exI[of _ "[]"]) simp

lemma post_raise: "Q (Inl e) [] \<Longrightarrow> post (raise e) w Q"
  unfolding post_def raise_def
  by (rule exI[of _ "Inl e"], rule exI[of _ "ext w"], rule exI[of _ "[]"]) simp

lemma post_get_ctx: "Q (Inr (ctx w)) [] \<Longrightarrow> post get_ctx w Q"
  unfolding post_def get_ctx_def
  by (rule exI[of _ "Inr (ctx w)"], rule exI[of _ "ext w"], rule exI[of _ "[]"]) simp

lemma post_logger: "Q (Inr ()) [Log lvl msg] \<Longrightarrow> post (logger lvl msg) w Q"
  unfolding post_def logger_def
  by (rule exI[of _ "Inr ()"], rule exI[of _ "ext w"], rule exI[of _ "[Log lvl msg]"]) simp

lemma post_perform: "(\<And>r. Q r [Call c (map_sum id d r)]) \<Longrightarrow> post (perform c d f) w Q"
  unfolding post_def perform_def
  by (cases "f (ext w)") auto

lemma post_and_then:
  assumes "post m w (\<lambda>r n1. case r of Inl e \<Rightarrow> Q (Inl e) n1
             | Inr x \<Rightarrow> \<forall>s. post (f x) (w\<lparr>ext := s, trace := trace w @ n1\<rparr>) (\<lambda>r2 n2. Q r2 (n1 @ n2)))"
  shows "post (and_then m f) w Q"
proof -
  from assms obtain res s n1 where m: "m w = (res, w\<lparr>ext := s, trace := trace w @ n1\<rparr>)"
    and c: "case res of Inl e \<Rightarrow> Q (Inl e) n1
             | Inr x \<Rightarrow> \<forall>s. post (f x) (w\<lparr>ext := s, trace := trace w @ n1\<rparr>) (\<lambda>r2 n2. Q r2 (n1 @ n2))"
    unfolding post_def by blast
  show ?thesis
  proof (cases res)
    case (Inl e)
    then show ?thesis using m c unfolding post_def and_then_def by auto
  next
    case (Inr x)
    with c have "post (f x) (w\<lparr>ext := s, trace := trace w @ n1\<rparr>) (\<lambda>r2 n2. Q r2 (n1 @ n2))" by simp
    then obtain r2 s2 n2 where
      "f x (w\<lparr>ext := s, trace := trace w @ n1\<rparr>) = (r2, w\<lparr>ext := s2, trace := trace w @ n1 @ n2\<rparr>)"
      "Q r2 (n1 @ n2)" unfolding post_def by auto
    then show ?thesis using m Inr unfolding post_def and_then_def by auto
  qed
qed

lemma post_try_except:
  assumes "post body w (\<lambda>r n1. case r of Inr x \<Rightarrow> Q (Inr x) n1
             | Inl e \<Rightarrow> \<forall>s. post (h e) (w\<lparr>ext := s, trace := trace w @ n1\<rparr>) (\<lambda>r2 n2. Q r2 (n1 @ n2)))"
  shows "post (try_except body h) w Q"
proof -
  from assms obtain res s n1 where m: "body w = (res, w\<lparr>ext := s, trace := trace w @ n1\<rparr>)"
    and c: "case res of Inr x \<Rightarrow> Q (Inr x) n1
             | Inl e \<Rightarrow> \<forall>s. post (h e) (w\<lparr>ext := s, trace := trace w @ n1\<rparr>) (\<lambda>r2 n2. Q r2 (n1 @ n2))"
    unfolding post_def by blast
  show ?thesis
  proof (cases res)
    case (Inr x)
    then show ?thesis using m c unfolding post_def try_except_def by auto
  next
    case (Inl e)
    with c have "post (h e) (w\<lparr>ext := s, trace := trace w @ n1\<rparr>) (\<lambda>r2 n2. Q r2 (n1 @ n2))" by simp
    then obtain r2 s2 n2 where
      "h e (w\<lparr>ext := s, trace := trace w @ n1\<rparr>) = (r2, w\<lparr>ext := s2, trace := trace w @ n1 @ n2\<rparr>)"
      "Q r2 (n1 @ n2)" unfolding post_def by auto
    then show ?thesis using m Inl unfolding post_def try_except_def by auto
  qed
qed

lemma post_mono: "post m w Q \<Longrightarrow> (\<And>r n. Q r n \<Longrightarrow> Q' r n) \<Longrightarrow> post m w Q'"
  unfolding post_def by blast

lemmas post_intros = post_ret post_raise post_get_ctx post_logger post_perform post_and_then post_try_except

lemmas call_defs = call_files_upload_and_poll_def call_files_delete_def call_files_save_def
  call_create_agent_def call_delete_agent_def call_threads_create_def call_threads_delete_def
  call_messages_create_def call_runs_create_and_process_def
  call_messages_get_last_message_text_by_role_def call_messages_list_def
  call_chat_completions_create_def call_os_path_exists_def call_shutil_copy2_def
  call_os_remove_def call_os_rename_def call_os_listdir_def call_open_read_def

lemma download_post:
  "post (download_and_read_csv self fid m) w (\<lambda>r new. \<not> isl r \<and> list_all aside new)"
  unfolding download_and_read_csv_def Let_def call_defs
  by (auto intro!: post_intros simp: aside_def split: sum.splits)

lemma post_and_then_known:
  assumes "post m w P"
    and "\<And>r n1. P r n1 \<Longrightarrow> (case r of Inl e \<Rightarrow> Q (Inl e) n1
             | Inr x \<Rightarrow> \<forall>s. post (f x) (w\<lparr>ext := s, trace := trace w @ n1\<rparr>) (\<lambda>r2 n2. Q r2 (n1 @ n2)))"
  shows "post (and_then m f) w Q"
  by (rule post_and_then, rule post_mono[OF assms(1)], rule assms(2))

lemma extract_each_post:
  "post (extract_each self anns m parts) w
     (\<lambda>r new. list_all aside new
        \<and> (\<exists>added. r = Inr (parts @ added) \<and> list_all (\<lambda>p. p \<noteq> [] \<and> hd p = CHR ''#'') added))"
proof (induction anns arbitrary: parts w)
  case Nil
  show ?case by (auto intro!: post_intros)
next
  case (Cons a anns)
  show ?case
    unfolding extract_each.simps
  proof (rule post_and_then_known[OF download_post])
    fix r :: "py_exception + string option" and n1 :: "event list"
    assume h: "\<not> isl r \<and> list_all aside n1"
    then obtain c where r: "r = Inr c" by (cases r) auto
    have "post (extract_each self anns m
                 (case c of None \<Rightarrow> parts
                  | Some content \<Rightarrow>
                      if content \<noteq> [] then
                        parts @ [''# '' @ format_csv_name (annotation_text a) @ newline @ content
                                 @ newline @ newline]
                      else parts))
            (w\<lparr>ext := s, trace := trace w @ n1\<rparr>)
            (\<lambda>r2 n2. list_all aside (n1 @ n2)
               \<and> (\<exists>added. r2 = Inr (parts @ added)
                     \<and> list_all (\<lambda>p. p \<noteq> [] \<and> hd p = CHR ''#'') added))" for s
      by (rule post_mono[OF Cons.IH]) (use h in \<open>auto split: option.splits if_splits\<close>)
    then show "case r of
                 Inl e \<Rightarrow> list_all aside n1
                   \<and> (\<exists>added. Inl e = Inr (parts @ added)
                         \<and> list_all (\<lambda>p. p \<noteq> [] \<and> hd p = CHR ''#'') added)
               | Inr x \<Rightarrow>
                   \<forall>s. post (extract_each self anns m
                              (case x of None \<Rightarrow> parts
                               | Some content \<Rightarrow>
                                   if content \<noteq> [] then
                                     parts @ [''# '' @ format_csv_name (annotation_text a) @ newline
                                              @ content @ newline @ newline]
                                   else parts))
                         (w\<lparr>ext := s, trace := trace w @ n1\<rparr>)
                         (\<lambda>r2 n2. list_all aside (n1 @ n2)
                            \<and> (\<exists>added. r2 = Inr (parts @ added)
                                  \<and> list_all (\<lambda>p. p \<noteq> [] \<and> hd p = CHR ''#'') added))"
      using r by simp
  qed
qed

lemma concat_hash: "list_all (\<lambda>p. p \<noteq> [] \<and> hd p = CHR ''#'') added \<Longrightarrow> concat added = [] \<or> hd (concat added) = CHR ''#''"
  by (cases added) auto

lemma extract_csv_results_post:
  "post (extract_csv_results self tid m) w
     (\<lambda>r new. list_all aside new \<and> (\<forall>v. r = Inr v \<longrightarrow> v = [] \<or> hd v = CHR ''#''))"
  unfolding extract_csv_results_def call_defs
  apply (rule post_and_then)
  apply (rule post_perform)
  apply (clarsimp split: sum.splits simp: aside_def)
  apply (rule post_and_then_known[OF extract_each_post])
  apply (auto intro!: post_intros simp: aside_def dest: concat_hash)
  done

section \<open>The attempts of the completion protocol\<close>

lemma stops_append: "stops_at_failed_run l res n2 \<Longrightarrow> stops_at_failed_run l res (n1 @ n2)"
  unfolding stops_at_failed_run_def
  by (metis append.assoc)

lemma extract_intro:
  "(\<And>r n. list_all aside n \<Longrightarrow> (\<forall>v. r = Inr v \<longrightarrow> v = [] \<or> hd v = CHR ''#'') \<Longrightarrow> Q r n)
   \<Longrightarrow> post (extract_csv_results self tid m) w Q"
  by (rule post_mono[OF extract_csv_results_post]) blast

lemma aside_run_failed: "list_all aside tr \<Longrightarrow> \<not> run_failed tr"
  by (simp add: run_failed_def aside_run_outcomes)

lemma aside_runs_made: "list_all aside tr \<Longrightarrow> runs_made tr = 0"
  by (simp add: runs_made_def aside_run_outcomes)

lemma exhausted_not_extract: "v = [] \<or> hd v = CHR ''#'' \<Longrightarrow> v \<noteq> MAX_ATTEMPTS_EXHAUSTED name"
  by (auto simp: MAX_ATTEMPTS_EXHAUSTED_def)

lemma stops_Cons: "stops_at_failed_run l res n \<Longrightarrow> stops_at_failed_run l res (e # n)"
  using stops_append[of l res n "[e]"] by simp

lemma stops_here:
  "status r = ''failed'' \<Longrightarrow>
   stops_at_failed_run l (Inr (l @ last_error r))
     [Call (Runs_create_and_process t a) (Inr (VRun r)), Log ERROR msg]"
  unfolding stops_at_failed_run_def by (metis append_Nil)

lemma aside_not_sentinel: "list_all aside tr \<Longrightarrow> \<not> list_ex shows_sentinel tr"
  using aside_sentinel by (simp add: sentinel_seen_def)

lemmas obs_simps = runs_made_def run_failed_def raised_any_def sentinel_seen_def is_raise_def
  shows_sentinel_def failed_outcome_def aside_run_outcomes aside_posts_ok aside_not_sentinel

lemma attempts_post:
  "1 \<le> k \<Longrightarrow> post (attempts self [k..<MAX_ATTEMPTS + 1]) w (attempts_Q k (model_name (ctx w)))"
proof (induction "MAX_ATTEMPTS + 1 - k" arbitrary: k w)
  case 0
  then have "[k..<MAX_ATTEMPTS + 1] = []" by simp
  then show ?case
    by (auto intro!: post_intros
        simp: attempts_Q_def MAX_ATTEMPTS_EXHAUSTED_def runs_made_def raised_any_def run_failed_def
              sentinel_seen_def)
next
  case (Suc n)
  then have k: "k \<le> MAX_ATTEMPTS" "1 \<le> k" by auto
  define rest where "rest = [Suc k..<MAX_ATTEMPTS + 1]"
  from k have list: "[k..<MAX_ATTEMPTS + 1] = k # rest"
    by (simp add: upt_conv_Cons rest_def)
  have rec: "post (attempts self rest) w' (attempts_Q (Suc k) (model_name (ctx w')))" for w'
    unfolding rest_def
  proof (rule Suc.hyps(1))
    show "n = MAX_ATTEMPTS + 1 - Suc k" using Suc.hyps(2) by simp
    show "1 \<le> Suc k" by simp
  qed
  have rec_intro: "post (attempts self rest) w' Q'"
    if "\<And>r n. attempts_Q (Suc k) (model_name (ctx w')) r n \<Longrightarrow> Q' r n" for w' Q'
    by (rule post_mono[OF rec]) (rule that)
  show ?case
    unfolding list attempts.simps get_last_agent_message_def send_continuation_prompt_def call_defs
    using k
    apply (auto intro!: post_intros extract_intro rec_intro split: sum.splits)
    apply (auto simp: attempts_Q_def obs_simps exhausted_not_extract MAX_ATTEMPTS_EXHAUSTED_def
                intro!: stops_here[where l = "''Run failed: ''", simplified] intro: stops_Cons)
    done
qed

lemma execute_agent_task_post:
  "post (execute_agent_task self task_text) w
     (\<lambda>res new. runs_made new \<le> MAX_ATTEMPTS
        \<and> ((res = Inr (MAX_ATTEMPTS_EXHAUSTED (model_name (ctx w))))
             = (\<not> raised_any new \<and> \<not> run_failed new \<and> \<not> sentinel_seen new))
        \<and> posts_while_attempts_remain 0 new
        \<and> (run_failed new \<longrightarrow> stops_at_failed_run ''Run failed: '' res new))"
proof -
  define all_attempts where "all_attempts = [1..<MAX_ATTEMPTS + 1]"
  have E: "execute_agent_task self task_text =
             and_then get_ctx
               (\<lambda>c. and_then (call_messages_create self (thread_id c) ''user'' task_text)
               (\<lambda>_. attempts self all_attempts))"
    unfolding all_attempts_def execute_agent_task_def by (rule refl)
  have rec_intro: "post (attempts self all_attempts) w' Q'"
    if "\<And>r n. attempts_Q 1 (model_name (ctx w')) r n \<Longrightarrow> Q' r n" for w' Q'
    unfolding all_attempts_def by (rule post_mono[OF attempts_post]) (simp, rule that)
  have pos: "0 < MAX_ATTEMPTS" by (simp add: MAX_ATTEMPTS_def)
  show ?thesis
    unfolding E call_defs
    apply (auto intro!: post_intros rec_intro split: sum.splits)
    apply (auto simp: attempts_Q_def obs_simps pos intro: stops_Cons)
    done
qed

lemma process_single_post:
  "post (process_single_reordered_file self a target_dir rc) w (\<lambda>r new. list_all aside new)"
  unfolding process_single_reordered_file_def Let_def call_defs
  by (auto intro!: post_intros simp: aside_def split: sum.splits)

lemma process_each_post:
  "post (process_each self anns target_dir rc) w (\<lambda>r new. list_all aside new)"
proof (induction anns arbitrary: rc w)
  case Nil
  show ?case by (auto intro!: post_intros)
next
  case (Cons a anns)
  show ?case
    unfolding process_each.simps
  proof (rule post_and_then_known[OF process_single_post])
    fix r :: "py_exception + (string \<times> string) list" and n1 :: "event list"
    assume h: "list_all aside n1"
    have "post (process_each self anns target_dir x) (w\<lparr>ext := s, trace := trace w @ n1\<rparr>)
            (\<lambda>r2 n2. list_all aside (n1 @ n2))" for s x
      by (rule post_mono[OF Cons.IH]) (use h in auto)
    then show "case r of Inl e \<Rightarrow> list_all aside n1
               | Inr x \<Rightarrow> \<forall>s. post (process_each self anns target_dir x)
                          (w\<lparr>ext := s, trace := trace w @ n1\<rparr>) (\<lambda>r2 n2. list_all aside (n1 @ n2))"
      using h by (cases r) auto
  qed
qed

lemma process_reorder_results_post:
  "post (process_reorder_results self legacy_path) w (\<lambda>r new. list_all aside new)"
  unfolding process_reorder_results_def Let_def call_defs
  apply (rule post_and_then, rule post_get_ctx, simp)
  apply (rule allI, rule post_and_then, rule post_perform)
  apply (clarsimp split: sum.splits simp: aside_def)
  apply (rule post_and_then_known[OF process_each_post])
  apply (auto intro!: post_intros simp: aside_def split: sum.splits)
  done

lemma process_intro:
  "(\<And>r n. list_all aside n \<Longrightarrow> Q r n) \<Longrightarrow> post (process_reorder_results self legacy_path) w Q"
  by (rule post_mono[OF process_reorder_results_post])

lemma execute_reorder_task_post:
  "post (execute_reorder_task self legacy_path) w
     (\<lambda>res new. runs_made new \<le> 1
        \<and> posts new = [Messages_create (thread_id (ctx w)) ''user'' (REORDER_TASK_PROMPT self)]
        \<and> (raised_any new \<or> runs_made new = 1)
        \<and> (run_failed new \<longrightarrow> stops_at_failed_run ''Error: Run failed: '' res new))"
  unfolding execute_reorder_task_def call_defs
  apply (auto intro!: post_intros process_intro split: sum.splits)
  apply (auto simp: obs_simps aside_posts
              intro!: stops_here[where l = "''Error: Run failed: ''", simplified] intro: stops_Cons)
  done



text \<open>
  Claim C8. When a remote run of \<^verbatim>\<open>_execute_agent_task\<close> (or of
  \<^verbatim>\<open>_execute_reorder_task\<close>) returns with status \<^verbatim>\<open>"failed"\<close>, that run and its log
  record are the last events of the history, so that no continuation prompt is posted and
  no further run is made after it, and the result is the failure string carrying the
  error of that run.
\<close>

theorem failed_run_stops:
  "(run_failed (drop (length (trace w)) (trace (snd (execute_agent_task self task_text w))))
      \<longrightarrow> stops_at_failed_run ''Run failed: '' (fst (execute_agent_task self task_text w))
            (drop (length (trace w)) (trace (snd (execute_agent_task self task_text w)))))
   \<and> (run_failed (drop (length (trace v)) (trace (snd (execute_reorder_task self legacy_path v))))
      \<longrightarrow> stops_at_failed_run ''Error: Run failed: '' (fst (execute_reorder_task self legacy_path v))
            (drop (length (trace v)) (trace (snd (execute_reorder_task self legacy_path v)))))"
proof -
  from execute_agent_task_post[of self task_text w] obtain res s new where
    1: "execute_agent_task self task_text w = (res, w\<lparr>ext := s, trace := trace w @ new\<rparr>)"
    and 2: "run_failed new \<longrightarrow> stops_at_failed_run ''Run failed: '' res new"
    unfolding post_def by blast
  from execute_reorder_task_post[of self legacy_path v] obtain res' s' new' where
    3: "execute_reorder_task self legacy_path v = (res', v\<lparr>ext := s', trace := trace v @ new'\<rparr>)"
    and 4: "run_failed new' \<longrightarrow> stops_at_failed_run ''Error: Run failed: '' res' new'"
    unfolding post_def by blast
  show ?thesis using 1 2 3 4 by simp
qed

theorem failed_run_stops_witness:
  "run_failed (trace (snd (execute_agent_task (scripted_env None) ''compare''
        (task_start (quiet\<lparr>run_script := [run_with ''completed'' [], run_with ''failed'' ''quota''],
                           message_script := [Inr (MessageText ''working'')]\<rparr>)
           (running_context ''gpt-4'')))))
   \<and> stops_at_failed_run ''Run failed: ''
        (fst (execute_agent_task (scripted_env None) ''compare''
           (task_start (quiet\<lparr>run_script := [run_with ''completed'' [], run_with ''failed'' ''quota''],
                              message_script := [Inr (MessageText ''working'')]\<rparr>)
              (running_context ''gpt-4''))))
        (trace (snd (execute_agent_task (scripted_env None) ''compare''
           (task_start (quiet\<lparr>run_script := [run_with ''completed'' [], run_with ''failed'' ''quota''],
                              message_script := [Inr (MessageText ''working'')]\<rparr>)
              (running_context ''gpt-4'')))))
   \<and> runs_made (trace (snd (execute_agent_task (scripted_env None) ''compare''
        (task_start (quiet\<lparr>run_script := [run_with ''completed'' [], run_with ''failed'' ''quota''],
                           message_script := [Inr (MessageText ''working'')]\<rparr>)
           (running_context ''gpt-4''))))) = 2"
proof -
  let ?w = "task_start (quiet\<lparr>run_script := [run_with ''completed'' [], run_with ''failed'' ''quota''],
                           message_script := [Inr (MessageText ''working'')]\<rparr>)
              (running_context ''gpt-4'')"
  have t: "trace ?w = []" by (simp add: task_start_def)
  have h: "run_failed (trace (snd (execute_agent_task (scripted_env None) ''compare'' ?w)))"
    by code_simp
  have n: "runs_made (trace (snd (execute_agent_task (scripted_env None) ''compare'' ?w))) = 2"
    by code_simp
  show ?thesis
    using h n failed_run_stops[of ?w "scripted_env None" "''compare''"] t by simp
qed

section \<open>Releasing a context twice\<close>

lemma calls_of_append [simp]: "calls_of (a @ b) = calls_of a @ calls_of b"
  by (induction a rule: calls_of.induct) auto

lemma remote_deletions_append [simp]:
  "remote_deletions (a @ b) = remote_deletions a @ remote_deletions b"
  by (simp add: remote_deletions_def)










section \<open>Failure strings and temporary paths of the comparison service\<close>

text \<open>
  Claim C1 fails on the comparison service. The results of \<^verbatim>\<open>_run_comparison_sync\<close> for a
  run with status \<^verbatim>\<open>"failed"\<close>, for an upload (here: the copy before it) that raises and for
  exhausted attempts are strings that do not start with \<^verbatim>\<open>"Error:"\<close>; the collection step
  keeps all three in the dictionary; and when the runs of both of two models fail, the
  fan-out hands the two failure strings to the judge and returns the one it picks.
\<close>

theorem runner_failures_are_collected:
  "fst (run_comparison_sync (scripted_env None) ''py.csv'' ''legacy.csv'' ''compare'' ''gpt-4''
          (start (quiet\<lparr>run_script := [run_with ''failed'' ''quota'']\<rparr>)))
     = Inr ''Run failed: quota''
   \<and> fst (run_comparison_sync (scripted_env None) ''py.csv'' ''legacy.csv'' ''compare'' ''gpt-4''
          (start (quiet\<lparr>failing_ids := [''/tmp/ported_python_output_gpt-4.csv'']\<rparr>)))
     = Inr ''An error occurred during agent processing with model gpt-4: refused: /tmp/ported_python_output_gpt-4.csv''
   \<and> fst (run_comparison_sync (scripted_env None) ''py.csv'' ''legacy.csv'' ''compare'' ''gpt-4''
          (start (quiet\<lparr>run_script := [run_with ''completed'' [], run_with ''completed'' [],
                                          run_with ''completed'' []],
                           message_script := [Inr NoMessage, Inr (MessageText ''working''),
                                              Inr MessageWithoutText]\<rparr>)))
     = Inr ''Maximum attempts reached without task completion for model gpt-4''
   \<and> fst (collect_successful_outputs (scripted_env (Some [''a'', ''b'', ''c'']))
          [Inr ''Run failed: quota'',
           Inr ''An error occurred during agent processing with model b: refused'',
           Inr ''Maximum attempts reached without task completion for model c'']
          (start quiet))
     = Inr [(''a'', ''Run failed: quota''),
            (''b'', ''An error occurred during agent processing with model b: refused''),
            (''c'', ''Maximum attempts reached without task completion for model c'')]
   \<and> fst (run_parallel_comparisons (scripted_env (Some [''gpt-4'', ''gpt-4o''])) gather_in_order
          ''py.csv'' ''legacy.csv'' ''compare''
          (start (quiet\<lparr>run_script := [run_with ''failed'' ''quota'', run_with ''failed'' ''rate limit'']\<rparr>)))
     = Inr ''Run failed: quota''"
  by code_simp

text \<open>
  Claim C9 fails on the comparison service: the temporary paths are named by the model name
  with every dot replaced by an underscore, so two distinct deployments whose names differ
  only there stage their uploads at the same paths.
\<close>

theorem comparison_tmp_paths_collide:
  "tmp_python ''gpt-4.1'' = tmp_python ''gpt-4_1''
   \<and> tmp_legacy ''gpt-4.1'' = tmp_legacy ''gpt-4_1''
   \<and> ''gpt-4.1'' \<noteq> ''gpt-4_1''"
  by code_simp

section \<open>Extraction without attachments\<close>

lemma download_none_post:
  "post (download_and_read_csv self fid m) w
     (\<lambda>r new. list_ex download_completed new \<or> r = Inr None)"
  unfolding download_and_read_csv_def Let_def call_defs
  by (auto intro!: post_intros simp: download_completed_def split: sum.splits)

lemma extract_each_none_post:
  "post (extract_each self anns m parts) w
     (\<lambda>r new. list_ex download_completed new \<or> r = Inr parts)"
proof (induction anns arbitrary: w)
  case Nil
  show ?case by (auto intro!: post_intros)
next
  case (Cons a anns)
  show ?case
    unfolding extract_each.simps
  proof (rule post_and_then_known[OF download_none_post])
    fix r :: "py_exception + string option" and n1 :: "event list"
    assume h: "list_ex download_completed n1 \<or> r = Inr None"
    show "case r of
            Inl e \<Rightarrow> list_ex download_completed n1 \<or> Inl e = Inr parts
          | Inr x \<Rightarrow>
              \<forall>s. post (extract_each self anns m
                         (case x of None \<Rightarrow> parts
                          | Some content \<Rightarrow>
                              if content \<noteq> [] then
                                parts @ [''# '' @ format_csv_name (annotation_text a) @ newline
                                         @ content @ newline @ newline]
                              else parts))
                    (w\<lparr>ext := s, trace := trace w @ n1\<rparr>)
                    (\<lambda>r2 n2. list_ex download_completed (n1 @ n2) \<or> r2 = Inr parts)"
    proof (cases "list_ex download_completed n1")
      case True
      have "post m' w' (\<lambda>r2 n2. list_ex download_completed (n1 @ n2) \<or> r2 = Inr parts)"
        if "post m' w' (\<lambda>r n. True)" for m' :: "(('a, 'b) world_scheme, string list) action" and w'
        by (rule post_mono[OF that]) (use True in simp)
      moreover have "post (extract_each self anns m ps) w' (\<lambda>r n. True)" for ps w'
        by (rule post_mono[OF extract_each_post]) simp
      ultimately show ?thesis using True by (cases r) auto
    next
      case False
      with h have r: "r = Inr None" by simp
      have "post (extract_each self anns m parts) (w\<lparr>ext := s, trace := trace w @ n1\<rparr>)
              (\<lambda>r2 n2. list_ex download_completed (n1 @ n2) \<or> r2 = Inr parts)" for s
        by (rule post_mono[OF Cons.IH]) auto
      then show ?thesis using r by simp
    qed
  qed
qed

lemma extract_each_none_intro:
  "(\<And>r n. list_ex download_completed n \<or> r = Inr parts \<Longrightarrow> Q r n)
   \<Longrightarrow> post (extract_each self anns m parts) w Q"
  by (rule post_mono[OF extract_each_none_post])

lemma extract_empty_post:
  "post (extract_csv_results self tid m) w
     (\<lambda>r new. list_ex listing_raised new \<or> list_ex download_completed new \<or> r = Inr [])"
  unfolding extract_csv_results_def call_defs
  by (auto intro!: post_intros extract_each_none_intro simp: listing_raised_def split: sum.splits)

lemma successful_other:
  "k \<notin> fst ` set zs \<Longrightarrow> map_of (successful zs acc) k = map_of acc k"
  by (induction zs acc rule: successful.induct) (auto simp: update_conv')

lemma successful_keeps:
  "distinct (map fst zs) \<Longrightarrow> (k, Inr s) \<in> set zs \<Longrightarrow> \<not> startswith s ''Error:''
   \<Longrightarrow> map_of (successful zs acc) k = Some s"
proof (induction zs acc rule: successful.induct)
  case (1 model_outputs)
  then show ?case by simp
next
  case (2 model e rest model_outputs)
  then show ?case by auto
next
  case (3 model s' rest model_outputs)
  show ?case
  proof (cases "k = model")
    case True
    with 3 have "s' = s" "k \<notin> fst ` set rest" by (auto simp: image_iff)
    then show ?thesis using 3(4) True by (simp add: successful_other update_conv')
  next
    case False
    with 3 show ?thesis by auto
  qed
qed

lemma collect_each_post:
  fixes w :: "('s, 'm) world_scheme"
  shows "post (collect_each zs acc) w (\<lambda>r new. r = Inr (successful zs acc) \<and> calls_of new = [])"
proof (induction zs acc arbitrary: w rule: successful.induct)
  case (1 model_outputs)
  show ?case by (auto intro!: post_intros)
next
  case (2 model e rest model_outputs)
  have rec_intro: "post (collect_each rest model_outputs) w' Q'"
    if "\<And>r n. r = Inr (successful rest model_outputs) \<Longrightarrow> calls_of n = [] \<Longrightarrow> Q' r n"
    for w' :: "('s, 'm) world_scheme" and Q'
    by (rule post_mono[OF 2]) (use that in auto)
  show ?case by (auto intro!: post_intros rec_intro)
next
  case (3 model s rest model_outputs)
  show ?case using 3[of w] by auto
qed

lemma successful_not_error:
  "list_all (\<lambda>(k, v). \<not> startswith v ''Error:'') acc
   \<Longrightarrow> list_all (\<lambda>(k, v). \<not> startswith v ''Error:'') (successful zs acc)"
proof (induction zs acc rule: successful.induct)
  case (3 model s rest model_outputs)
  have "list_all (\<lambda>(k, v). \<not> startswith v ''Error:'') (AList.update model s model_outputs)"
    if "\<not> startswith s ''Error:''"
    using 3(2) that by (induction model_outputs) (auto split: if_splits)
  then show ?case using 3 by auto
qed auto

lemma successful_distinct:
  "distinct (map fst acc) \<Longrightarrow> distinct (map fst (successful zs acc))"
  by (induction zs acc rule: successful.induct) (auto simp: distinct_update)

text \<open>
  Claim C10. When the messages of the thread are listed and no download goes through (there
  is no attachment, or each download or read raises and yields \<open>None\<close>),
  \<^verbatim>\<open>_extract_csv_results\<close> returns the empty string; the empty string does not start with
  \<^verbatim>\<open>"Error:"\<close>, and the collection step enters it in the dictionary under the name of its
  model.
\<close>

theorem empty_extraction_is_a_success:
  assumes "extract_csv_results self tid mname w = (res, w')"
    and "\<not> list_ex listing_raised (drop (length (trace w)) (trace w'))"
    and "\<not> list_ex download_completed (drop (length (trace w)) (trace w'))"
    and "distinct (csv_model_deployments self)"
    and "(model, res) \<in> set (zip (csv_model_deployments self) results)"
  shows "res = Inr []
         \<and> \<not> startswith [] ''Error:''
         \<and> (\<exists>model_outputs v'.
               collect_successful_outputs self results v = (Inr model_outputs, v')
               \<and> map_of model_outputs model = Some [])"
proof -
  from extract_empty_post[of self tid mname w] obtain r s new where
    1: "extract_csv_results self tid mname w = (r, w\<lparr>ext := s, trace := trace w @ new\<rparr>)"
    and 2: "list_ex listing_raised new \<or> list_ex download_completed new \<or> r = Inr []"
    unfolding post_def by blast
  from 1 assms(1) have "res = r" "drop (length (trace w)) (trace w') = new" by auto
  with 2 assms(2,3) have res: "res = Inr []" by simp
  have ne: "\<not> startswith [] ''Error:''" by (simp add: startswith_def)
  from collect_each_post[of "zip (csv_model_deployments self) results" "[]" v]
  obtain s2 n2 where
    c: "collect_successful_outputs self results v
          = (Inr (successful (zip (csv_model_deployments self) results) []),
             v\<lparr>ext := s2, trace := trace v @ n2\<rparr>)"
    unfolding post_def collect_successful_outputs_def by auto
  have "distinct (map fst (zip (csv_model_deployments self) results))"
    using assms(4) by (simp add: map_fst_zip_take)
  then have "map_of (successful (zip (csv_model_deployments self) results) []) model = Some []"
    using assms(5) res ne by (intro successful_keeps) auto
  then show ?thesis using res ne c by simp
qed

theorem empty_extraction_is_a_success_witness:
  "fst (extract_csv_results (scripted_env (Some [''gpt-4'', ''gpt-4o''])) (Some ''t1'') ''gpt-4''
          (start (quiet\<lparr>failing_ids := [''x1''],
                         listed_messages :=
                           [\<lparr>role = AGENT,
                             file_path_annotations =
                               [\<lparr>annotation_text = ''sandbox:/mnt/data/row.csv'',
                                 file_path_file_id = ''x1''\<rparr>]\<rparr>]\<rparr>)))
     = Inr []
   \<and> fst (collect_successful_outputs (scripted_env (Some [''gpt-4'', ''gpt-4o'']))
            [Inr [], Inr ''# Row''] (start quiet))
       = Inr [(''gpt-4'', []), (''gpt-4o'', ''# Row'')]"
proof -
  let ?self = "scripted_env (Some [''gpt-4'', ''gpt-4o''])"
  let ?w = "start (quiet\<lparr>failing_ids := [''x1''],
                         listed_messages :=
                           [\<lparr>role = AGENT,
                             file_path_annotations =
                               [\<lparr>annotation_text = ''sandbox:/mnt/data/row.csv'',
                                 file_path_file_id = ''x1''\<rparr>]\<rparr>]\<rparr>)"
  obtain res w' where run: "extract_csv_results ?self (Some ''t1'') ''gpt-4'' ?w = (res, w')"
    by (cases "extract_csv_results ?self (Some ''t1'') ''gpt-4'' ?w")
  have a: "\<not> list_ex listing_raised
              (drop (length (trace ?w)) (trace (snd (extract_csv_results ?self (Some ''t1'') ''gpt-4'' ?w))))"
    by code_simp
  have b: "\<not> list_ex download_completed
              (drop (length (trace ?w)) (trace (snd (extract_csv_results ?self (Some ''t1'') ''gpt-4'' ?w))))"
    by code_simp
  have d: "distinct (csv_model_deployments ?self)" by code_simp
  have r0: "fst (extract_csv_results ?self (Some ''t1'') ''gpt-4'' ?w) = Inr []" by code_simp
  have z: "(''gpt-4'', res) \<in> set (zip (csv_model_deployments ?self) [Inr [], Inr ''# Row''])"
    using r0 run by (simp add: csv_model_deployments_def scripted_env_def)
  from empty_extraction_is_a_success[OF run _ _ d z, of "start quiet"] a b run
  have "res = Inr []" by simp
  moreover have "fst (collect_successful_outputs ?self [Inr [], Inr ''# Row''] (start quiet))
       = Inr [(''gpt-4'', []), (''gpt-4o'', ''# Row'')]" by code_simp
  ultimately show ?thesis using run by simp
qed

end
